theory Spec2Isabelle
  imports Main "HOL-Library.AList" "HOL-Library.Sublist"
begin

section \<open>Python values used by the program\<close>

text \<open>
  Python \<open>str\<close> values are modelled as \<^typ>\<open>string\<close>: the UTF-8 encoding of the text.
  A Python \<open>dict\<close> is an association list in insertion order: \<open>d[k] = v\<close> is
  \<^const>\<open>AList.update\<close> (an existing key keeps its place, a new key goes to the end),
  \<open>d[k]\<close> is \<^const>\<open>map_of\<close>, \<open>k in d\<close> is membership in the keys, \<open>del d[k]\<close> is
  \<^const>\<open>AList.delete\<close>. The keys of a Python dict are distinct.
\<close>

type_synonym job = "(string \<times> string) list"

type_synonym registry = "(string \<times> job) list"

text \<open>Exceptions, each with its message.\<close>

datatype exn =
    KeyError string
  | ValueError string
  | OSError string
  | UnicodeDecodeError string
  | JSONDecodeError string
  | RequestValidationError string
  | HTTPException nat string

text \<open>\<open>str(n)\<close> for an integer: decimal digits, with a minus sign for a negative number.\<close>

function str_nat :: "nat \<Rightarrow> string" where
  "str_nat n =
     (if n < 10 then [''0123456789'' ! n]
      else str_nat (n div 10) @ [''0123456789'' ! (n mod 10)])"
  by pat_completeness auto
termination
  by (relation "measure id") auto

definition str_int :: "int \<Rightarrow> string" where
  "str_int i = (if i < 0 then ''-'' @ str_nat (nat (- i)) else str_nat (nat i))"

text \<open>
  \<open>str(e)\<close>: the message of the exception; a \<open>KeyError\<close> shows its key in quotes, an
  \<open>HTTPException\<close> its status code and its detail.
\<close>

fun str_exn :: "exn \<Rightarrow> string" where
  "str_exn (KeyError k) = [CHR 0x27] @ k @ [CHR 0x27]"
| "str_exn (ValueError m) = m"
| "str_exn (OSError m) = m"
| "str_exn (UnicodeDecodeError m) = m"
| "str_exn (JSONDecodeError m) = m"
| "str_exn (RequestValidationError m) = m"
| "str_exn (HTTPException c m) = str_nat c @ '': '' @ m"

text \<open>
  \<open>old in s\<close> on strings is \<^const>\<open>sublist\<close>, \<open>s.endswith(t)\<close> is \<^const>\<open>suffix\<close>.
  \<open>sep.join(xs)\<close> and \<open>s.replace(old, new)\<close> (every occurrence, left to right, without
  overlap; an empty \<open>old\<close> matches before every character and at the end):
\<close>

fun str_join :: "string \<Rightarrow> string list \<Rightarrow> string" where
  "str_join sep [] = []"
| "str_join sep [x] = x"
| "str_join sep (x # y # ys) = x @ sep @ str_join sep (y # ys)"

function str_replace :: "string \<Rightarrow> string \<Rightarrow> string \<Rightarrow> string" where
  "str_replace old new [] = (if old = [] then new else [])"
| "str_replace old new (c # cs) =
     (if old = [] then new @ c # str_replace old new cs
      else if prefix old (c # cs) then new @ str_replace old new (drop (length old) (c # cs))
      else c # str_replace old new cs)"
  by pat_completeness auto
termination
  by (relation "measure (\<lambda>(old, new, s). length s)") auto

text \<open>
  \<open>s.lower()\<close>, on ASCII letters; other characters are returned as they are. The
  program applies it to a file extension only.
\<close>

definition lower_char :: "char \<Rightarrow> char" where
  "lower_char c =
     (case map_of (zip ''ABCDEFGHIJKLMNOPQRSTUVWXYZ'' ''abcdefghijklmnopqrstuvwxyz'') c of
        None \<Rightarrow> c | Some d \<Rightarrow> d)"

definition lower :: "string \<Rightarrow> string" where
  "lower s = map lower_char s"

text \<open>
  \<open>bytes.decode('utf-8')\<close> is strict: it returns the text when the bytes are well-formed
  UTF-8 (no overlong form, no surrogate, nothing above U+10FFFF) and raises
  \<open>UnicodeDecodeError\<close> otherwise. A text being modelled by its UTF-8 encoding, a
  successful decoding returns the bytes themselves. The position and the reason that
  Python adds to the message of the exception are left out.
\<close>

fun valid_utf8 :: "nat list \<Rightarrow> bool" where
  "valid_utf8 [] = True"
| "valid_utf8 (b # bs) =
     (if b < 0x80 then valid_utf8 bs
      else if 0xC2 \<le> b \<and> b \<le> 0xDF then
        (case bs of c1 # r \<Rightarrow> 0x80 \<le> c1 \<and> c1 \<le> 0xBF \<and> valid_utf8 r | _ \<Rightarrow> False)
      else if 0xE0 \<le> b \<and> b \<le> 0xEF then
        (case bs of c1 # c2 # r \<Rightarrow>
           (if b = 0xE0 then 0xA0 else 0x80) \<le> c1 \<and> c1 \<le> (if b = 0xED then 0x9F else 0xBF) \<and>
           0x80 \<le> c2 \<and> c2 \<le> 0xBF \<and> valid_utf8 r
         | _ \<Rightarrow> False)
      else if 0xF0 \<le> b \<and> b \<le> 0xF4 then
        (case bs of c1 # c2 # c3 # r \<Rightarrow>
           (if b = 0xF0 then 0x90 else 0x80) \<le> c1 \<and> c1 \<le> (if b = 0xF4 then 0x8F else 0xBF) \<and>
           0x80 \<le> c2 \<and> c2 \<le> 0xBF \<and> 0x80 \<le> c3 \<and> c3 \<le> 0xBF \<and> valid_utf8 r
         | _ \<Rightarrow> False)
      else False)"

definition decode_utf8 :: "string \<Rightarrow> exn + string" where
  "decode_utf8 bs =
     (if valid_utf8 (map of_char bs) then Inr bs
      else Inl (UnicodeDecodeError ([CHR 0x27] @ ''utf-8'' @ [CHR 0x27] @ '' codec cannot decode the bytes'')))"


section \<open>services/job\_service.py: the job registry\<close>

text \<open>
  \<open>create_job\<close>: the fresh identifier (\<open>str(uuid.uuid4())\<close>) and the creation time
  (\<open>datetime.now().isoformat()\<close>) come from the environment and are arguments here.
\<close>

definition create_job :: "string \<Rightarrow> string \<Rightarrow> string \<Rightarrow> string \<Rightarrow> registry \<Rightarrow> string \<times> registry" where
  "create_job job_id now_iso filename file_path reg =
     (job_id,
      AList.update job_id
        [(''id'', job_id), (''filename'', filename), (''status'', ''uploaded''),
         (''timestamp'', now_iso), (''file_path'', file_path)] reg)"

text \<open>
  \<open>update_job_status(job_id, status, **kwargs)\<close>: when the id is registered, the status
  is stored and then every keyword argument, in order; otherwise nothing happens.
\<close>

definition update_job_status :: "string \<Rightarrow> string \<Rightarrow> (string \<times> string) list \<Rightarrow> registry \<Rightarrow> registry" where
  "update_job_status job_id status kwargs reg =
     (if job_id \<in> fst ` set reg then
        fold (\<lambda>(key, value). AList.map_entry job_id (AList.update key value)) kwargs
          (AList.map_entry job_id (AList.update ''status'' status) reg)
      else reg)"

definition get_job_status :: "string \<Rightarrow> registry \<Rightarrow> job" where
  "get_job_status job_id reg = (case map_of reg job_id of None \<Rightarrow> [] | Some j \<Rightarrow> j)"

definition delete_job :: "string \<Rightarrow> registry \<Rightarrow> registry" where
  "delete_job job_id reg = (if job_id \<in> fst ` set reg then AList.delete job_id reg else reg)"

text \<open>\<open>job_status[job_id].get(field)\<close> for a registered id: what a status poll shows of a field.\<close>

definition job_field :: "registry \<Rightarrow> string \<Rightarrow> string \<Rightarrow> string option" where
  "job_field reg job_id field = (case map_of reg job_id of None \<Rightarrow> None | Some job \<Rightarrow> map_of job field)"

section \<open>models.py: the code submission and its validator\<close>

definition forbidden_modules :: "string list" where
  "forbidden_modules =
     [''subprocess'', ''os.system'', ''eval('', ''exec('', ''importlib'',
      ''sys.modules'', ''__import__'', ''open('', ''file('',
      ''execfile('', ''compile('', ''pty'', ''popen'', ''system'']"

text \<open>
  \<open>validate_code\<close>: the loop raises at the first token of the list, in list order, that
  occurs in the text; when none occurs the text is returned.
\<close>

definition validate_code :: "string \<Rightarrow> exn + string" where
  "validate_code v =
     (case find (\<lambda>module. sublist module v) forbidden_modules of
        Some module \<Rightarrow> Inl (ValueError (''Forbidden module or function detected: '' @ module))
      | None \<Rightarrow> Inr v)"

record code_submission =
  code :: string

text \<open>Building a \<open>CodeSubmission\<close> runs the field validator on \<open>code\<close>.\<close>

definition CodeSubmission :: "string \<Rightarrow> exn + code_submission" where
  "CodeSubmission v =
     (case validate_code v of Inl e \<Rightarrow> Inl e | Inr c \<Rightarrow> Inr \<lparr>code = c\<rparr>)"

section \<open>The file system\<close>

text \<open>
  The part of the host's file system that the program touches: the entries by path, in
  the order in which a directory listing reports them, and the paths on which the host
  refuses a change (permission denied, file in use). Paths are compared as strings.
  A failing call leaves the file system as it was. Which entries a failing
  \<open>shutil.rmtree\<close> has already removed depends on the host's directory order and is not
  modelled; creating a directory does not create its ancestors, which the program's
  configuration module creates at import.
\<close>

datatype node = File string | Dir

record filesystem =
  nodes :: "(string \<times> node) list"
  denied :: "string set"

text \<open>\<open>os.path.join(a, b)\<close> of \<open>posixpath\<close>.\<close>

definition os_path_join :: "string \<Rightarrow> string \<Rightarrow> string" where
  "os_path_join a b =
     (if prefix ''/'' b then b
      else if a = [] \<or> suffix ''/'' a then a @ b
      else a @ ''/'' @ b)"

text \<open>
  \<open>os.path.splitext(p)[1]\<close>: the extension starts at the last dot of the last path
  component, unless only dots precede it there. On \<open>nt\<close> the backslash separates
  components as well.
\<close>

definition is_sep :: "string \<Rightarrow> char \<Rightarrow> bool" where
  "is_sep os_name c = (c = CHR ''/'' \<or> (os_name = ''nt'' \<and> c = CHR 0x5C))"

definition splitext_ext :: "string \<Rightarrow> string \<Rightarrow> string" where
  "splitext_ext os_name p =
     (let base = rev (takeWhile (\<lambda>c. \<not> is_sep os_name c) (rev p));
          ext = rev (takeWhile (\<lambda>c. c \<noteq> CHR ''.'') (rev base));
          stem = take (length base - length ext - 1) base
      in if CHR ''.'' \<notin> set base \<or> (\<forall>c \<in> set stem. c = CHR ''.'') then []
         else CHR ''.'' # ext)"

definition os_path_exists :: "filesystem \<Rightarrow> string \<Rightarrow> bool" where
  "os_path_exists d p = (map_of (nodes d) p \<noteq> None)"

definition os_path_isfile :: "filesystem \<Rightarrow> string \<Rightarrow> bool" where
  "os_path_isfile d p = (case map_of (nodes d) p of Some (File c) \<Rightarrow> True | _ \<Rightarrow> False)"

text \<open>\<open>within p q\<close>: the path \<open>q\<close> is \<open>p\<close> or lies beneath the directory \<open>p\<close>.\<close>

definition within :: "string \<Rightarrow> string \<Rightarrow> bool" where
  "within p q = (q = p \<or> prefix (p @ ''/'') q)"

definition os_remove :: "filesystem \<Rightarrow> string \<Rightarrow> exn + filesystem" where
  "os_remove d p =
     (case map_of (nodes d) p of
        None \<Rightarrow> Inl (OSError (''[Errno 2] No such file or directory: '' @ p))
      | Some Dir \<Rightarrow> Inl (OSError (''[Errno 21] Is a directory: '' @ p))
      | Some (File c) \<Rightarrow>
          if p \<in> denied d then Inl (OSError (''[Errno 13] Permission denied: '' @ p))
          else Inr (d\<lparr>nodes := AList.delete p (nodes d)\<rparr>))"

definition shutil_rmtree :: "filesystem \<Rightarrow> string \<Rightarrow> exn + filesystem" where
  "shutil_rmtree d p =
     (case map_of (nodes d) p of
        None \<Rightarrow> Inl (OSError (''[Errno 2] No such file or directory: '' @ p))
      | Some (File c) \<Rightarrow> Inl (OSError (''[Errno 20] Not a directory: '' @ p))
      | Some Dir \<Rightarrow>
          if \<exists>q \<in> fst ` set (nodes d). within p q \<and> q \<in> denied d
          then Inl (OSError (''[Errno 13] Permission denied: '' @ p))
          else Inr (d\<lparr>nodes := filter (\<lambda>(q, n). \<not> within p q) (nodes d)\<rparr>))"

text \<open>\<open>with open(p, 'w') as f: f.write(text)\<close>\<close>

definition open_write :: "filesystem \<Rightarrow> string \<Rightarrow> string \<Rightarrow> exn + filesystem" where
  "open_write d p text =
     (case map_of (nodes d) p of
        Some Dir \<Rightarrow> Inl (OSError (''[Errno 21] Is a directory: '' @ p))
      | _ \<Rightarrow>
          if p \<in> denied d then Inl (OSError (''[Errno 13] Permission denied: '' @ p))
          else Inr (d\<lparr>nodes := AList.update p (File text) (nodes d)\<rparr>))"

text \<open>\<open>os.makedirs(p, exist_ok=True)\<close>\<close>

definition os_makedirs :: "filesystem \<Rightarrow> string \<Rightarrow> exn + filesystem" where
  "os_makedirs d p =
     (case map_of (nodes d) p of
        Some Dir \<Rightarrow> Inr d
      | Some (File c) \<Rightarrow> Inl (OSError (''[Errno 17] File exists: '' @ p))
      | None \<Rightarrow>
          if p \<in> denied d then Inl (OSError (''[Errno 13] Permission denied: '' @ p))
          else Inr (d\<lparr>nodes := AList.update p Dir (nodes d)\<rparr>))"

text \<open>
  \<open>os.listdir(p)\<close>: the names \<open>n\<close>, without a separator, for which \<open>os.path.join(p, n)\<close>
  is an entry.
\<close>

definition child_name :: "string \<Rightarrow> string \<Rightarrow> string option" where
  "child_name p q =
     (let b = os_path_join p []; n = drop (length b) q
      in if prefix b q \<and> n \<noteq> [] \<and> CHR ''/'' \<notin> set n then Some n else None)"

definition os_listdir :: "filesystem \<Rightarrow> string \<Rightarrow> exn + string list" where
  "os_listdir d p =
     (case map_of (nodes d) p of
        None \<Rightarrow> Inl (OSError (''[Errno 2] No such file or directory: '' @ p))
      | Some (File c) \<Rightarrow> Inl (OSError (''[Errno 20] Not a directory: '' @ p))
      | Some Dir \<Rightarrow> Inr (List.map_filter (\<lambda>(q, n). child_name p q) (nodes d)))"

section \<open>config.py\<close>

text \<open>\<open>tempfile.gettempdir()\<close> is the host's; a POSIX host answers \<open>/tmp\<close>.\<close>

definition gettempdir :: string where
  "gettempdir = ''/tmp''"

definition UPLOAD_FOLDER :: string where
  "UPLOAD_FOLDER = os_path_join (os_path_join gettempdir ''file_processor'') ''uploads''"

definition CODE_FOLDER :: string where
  "CODE_FOLDER = os_path_join (os_path_join gettempdir ''file_processor'') ''code''"

definition RESULTS_FOLDER :: string where
  "RESULTS_FOLDER = os_path_join (os_path_join gettempdir ''file_processor'') ''results''"

definition MAX_EXECUTION_TIME :: int where
  "MAX_EXECUTION_TIME = 120"

section \<open>services/sandbox\_service.py: the executor\<close>

text \<open>
  What the host does with the launched command is the environment's answer:
  launching raises; the process exits in time with an exit code and the bytes of its two
  streams; or the deadline passes, with the return code that the process handle shows
  at that moment (\<open>None\<close> while the process runs) and the bytes written so far.
\<close>

datatype outcome =
    LaunchError exn
  | Exited int string string
  | TimedOut "int option" string string

datatype proc_state = Running | Terminated int | Killed

definition process_of :: "int option \<Rightarrow> proc_state" where
  "process_of rc = (case rc of None \<Rightarrow> Running | Some c \<Rightarrow> Terminated c)"

text \<open>\<open>process.kill()\<close> ends a running process and leaves a finished one as it is.\<close>

fun kill :: "proc_state \<Rightarrow> proc_state" where
  "kill Running = Killed"
| "kill (Terminated c) = Terminated c"
| "kill Killed = Killed"

text \<open>
  \<open>_execute_windows\<close> and \<open>_execute_unix\<close> return the exception that leaves them, if any,
  the registry, and the state of the process when one was created. On a timeout the
  Windows branch kills the process and reads what is left of its streams into two local
  variables that it never uses; the Unix branch kills the process when its return code
  is still \<open>None\<close> and reads nothing.
\<close>

definition execute_windows ::
  "string \<Rightarrow> string list \<Rightarrow> int \<Rightarrow> outcome \<Rightarrow> registry \<Rightarrow> exn option \<times> registry \<times> proc_state option" where
  "execute_windows job_id docker_cmd max_execution_time oc reg =
     (case oc of
        LaunchError e \<Rightarrow> (Some e, reg, None)
      | Exited exit_code stdout stderr \<Rightarrow>
          (case (if stdout \<noteq> [] then decode_utf8 stdout else Inr []) of
             Inl e \<Rightarrow> (Some e, reg, Some (Terminated exit_code))
           | Inr stdout_text \<Rightarrow>
               (case (if stderr \<noteq> [] then decode_utf8 stderr else Inr []) of
                  Inl e \<Rightarrow> (Some e, reg, Some (Terminated exit_code))
                | Inr stderr_text \<Rightarrow>
                    (let reg1 = update_job_status job_id ''running''
                                  [(''stdout'', stdout_text), (''stderr'', stderr_text)] reg
                     in if exit_code \<noteq> 0 then
                          (None,
                           update_job_status job_id ''failed''
                             [(''error'', ''Exit code: '' @ str_int exit_code @ [CHR 0x0A] @
                                          ''Stderr: '' @ stderr_text)] reg1,
                           Some (Terminated exit_code))
                        else
                          (None, update_job_status job_id ''completed'' [] reg1,
                           Some (Terminated exit_code)))))
      | TimedOut rc stdout stderr \<Rightarrow>
          (None,
           update_job_status job_id ''timeout''
             [(''error'', ''Execution timed out after '' @ str_int max_execution_time @ '' seconds'')] reg,
           Some (kill (process_of rc))))"

definition execute_unix ::
  "string \<Rightarrow> string list \<Rightarrow> int \<Rightarrow> outcome \<Rightarrow> registry \<Rightarrow> exn option \<times> registry \<times> proc_state option" where
  "execute_unix job_id docker_cmd max_execution_time oc reg =
     (case oc of
        LaunchError e \<Rightarrow> (Some e, reg, None)
      | Exited exit_code stdout stderr \<Rightarrow>
          (case decode_utf8 stdout of
             Inl e \<Rightarrow> (Some e, reg, Some (Terminated exit_code))
           | Inr stdout_text \<Rightarrow>
               (case decode_utf8 stderr of
                  Inl e \<Rightarrow> (Some e, reg, Some (Terminated exit_code))
                | Inr stderr_text \<Rightarrow>
                    (let reg1 = update_job_status job_id ''running''
                                  [(''stdout'', stdout_text), (''stderr'', stderr_text)] reg
                     in if exit_code \<noteq> 0 then
                          (None,
                           update_job_status job_id ''failed''
                             [(''error'', ''Exit code: '' @ str_int exit_code @ [CHR 0x0A] @
                                          ''Stderr: '' @ stderr_text)] reg1,
                           Some (Terminated exit_code))
                        else
                          (None, update_job_status job_id ''completed'' [] reg1,
                           Some (Terminated exit_code)))))
      | TimedOut rc stdout stderr \<Rightarrow>
          (None,
           update_job_status job_id ''timeout''
             [(''error'', ''Execution timed out after '' @ str_int max_execution_time @ '' seconds'')] reg,
           Some (if rc = None then kill (process_of rc) else process_of rc)))"

definition docker_command :: "string \<Rightarrow> string \<Rightarrow> string \<Rightarrow> string \<Rightarrow> string \<Rightarrow> int \<Rightarrow> string list" where
  "docker_command os_name file_ext file_path code_path result_path max_execution_time =
     [''docker'', ''run'', ''--rm'',
      ''--memory=512m'', ''--cpu-shares=512'',
      ''--stop-timeout'', str_int max_execution_time,
      ''-v'', file_path @ '':/data/input_file'' @ file_ext @ '':ro'',
      ''-v'', code_path @ '':/data/process.py:ro'',
      ''-v'', result_path @ '':/data/output:rw'',
      ''python-sandbox'',
      ''sh'', ''-c'', ''cd /data && python -m process'']"

definition docker_path :: "string \<Rightarrow> string \<Rightarrow> string" where
  "docker_path os_name p =
     (if os_name = ''nt'' then str_replace ''C:'' ''/c'' (str_replace [CHR 0x5C] ''/'' p) else p)"

text \<open>
  \<open>execute_code_in_sandbox\<close>. \<open>format_exc\<close> stands for \<open>traceback.format_exc()\<close>, the
  text of the traceback of the exception being handled; \<open>os_name\<close> is \<open>os.name\<close>. The
  function returns no value and lets no exception escape: its result is the registry
  and the state of the process.
\<close>

definition execute_code_in_sandbox ::
  "(exn \<Rightarrow> string) \<Rightarrow> string \<Rightarrow> string \<Rightarrow> string \<Rightarrow> string \<Rightarrow> string \<Rightarrow> int \<Rightarrow> outcome \<Rightarrow> registry
     \<Rightarrow> registry \<times> proc_state option" where
  "execute_code_in_sandbox format_exc os_name job_id file_path code_path result_path
     max_execution_time oc reg =
     (let reg1 = update_job_status job_id ''running'' [] reg;
          file_ext = lower (splitext_ext os_name file_path);
          docker_cmd = docker_command os_name file_ext (docker_path os_name file_path)
                         (docker_path os_name code_path) (docker_path os_name result_path)
                         max_execution_time;
          reg2 = update_job_status job_id ''running''
                   [(''docker_cmd'', str_join '' '' docker_cmd)] reg1
      in case (if os_name = ''nt''
               then execute_windows job_id docker_cmd max_execution_time oc reg2
               else execute_unix job_id docker_cmd max_execution_time oc reg2) of
           (None, reg3, ps) \<Rightarrow> (reg3, ps)
         | (Some e, reg3, ps) \<Rightarrow>
             (update_job_status job_id ''failed''
                [(''error'', ''Exception: '' @ str_exn e @ [CHR 0x0A] @ format_exc e)] reg3,
              ps))"

section \<open>app.py: the request handlers\<close>

text \<open>
  The handlers work on the registry and the file system. A handler returns its response,
  or the exception that leaves it (an \<open>HTTPException\<close> carries the status code of the
  reply; any other exception makes the framework reply with status 500).
\<close>

record state =
  job_status :: registry
  disk :: filesystem

record task =
  task_job_id :: string
  task_file_path :: string
  task_code_path :: string
  task_result_path :: string
  task_max_execution_time :: int

text \<open>
  \<open>submit_code\<close>. The handler checks that the job is registered and nothing else about
  it. \<open>background_tasks\<close> is the request's task list; the framework runs it after the
  response has been sent, and discards it when the handler raises.
\<close>

definition submit_code ::
  "state \<Rightarrow> string \<Rightarrow> code_submission \<Rightarrow> task list
     \<Rightarrow> (exn + (string \<times> string) list) \<times> state \<times> task list" where
  "submit_code st job_id code_submission background_tasks =
     (if job_id \<notin> fst ` set (job_status st) then
        (Inl (HTTPException 404 ''Job not found''), st, background_tasks)
      else
       (let code_path = os_path_join CODE_FOLDER (job_id @ ''_process.py'') in
       (case open_write (disk st) code_path (code code_submission) of
          Inl e \<Rightarrow>
            (Inl (HTTPException 500 (''Error processing code: '' @ str_exn e)), st, background_tasks)
        | Inr d1 \<Rightarrow>
       (let result_path = os_path_join RESULTS_FOLDER job_id in
       (case os_makedirs d1 result_path of
          Inl e \<Rightarrow>
            (Inl (HTTPException 500 (''Error processing code: '' @ str_exn e)),
             st\<lparr>disk := d1\<rparr>, background_tasks)
        | Inr d2 \<Rightarrow>
       (let reg1 = AList.map_entry job_id (AList.update ''status'' ''processing'') (job_status st);
            reg2 = AList.map_entry job_id (AList.update ''code_path'' code_path) reg1;
            reg3 = AList.map_entry job_id (AList.update ''result_path'' result_path) reg2;
            st' = st\<lparr>job_status := reg3, disk := d2\<rparr>
        in (case map_of (get_job_status job_id reg3) ''file_path'' of
              None \<Rightarrow>
                (Inl (HTTPException 500
                        (''Error processing code: '' @ str_exn (KeyError ''file_path''))),
                 st', background_tasks)
            | Some file_path \<Rightarrow>
                (Inr [(''job_id'', job_id), (''status'', ''processing''),
                      (''message'', ''Code submitted and processing started'')],
                 st',
                 background_tasks @
                   [\<lparr>task_job_id = job_id, task_file_path = file_path,
                     task_code_path = code_path, task_result_path = result_path,
                     task_max_execution_time = MAX_EXECUTION_TIME\<rparr>]))))))))"

text \<open>
  The route \<open>POST /submit_code/{job_id}\<close>: the framework builds the \<open>CodeSubmission\<close> from
  the request body before it calls the handler, and replies with a validation error,
  without calling the handler, when the validator raises.
\<close>

definition post_submit_code ::
  "state \<Rightarrow> string \<Rightarrow> string \<Rightarrow> task list \<Rightarrow> (exn + (string \<times> string) list) \<times> state \<times> task list" where
  "post_submit_code st job_id body background_tasks =
     (case CodeSubmission body of
        Inl e \<Rightarrow> (Inl (RequestValidationError (str_exn e)), st, background_tasks)
      | Inr code_submission \<Rightarrow> submit_code st job_id code_submission background_tasks)"

text \<open>
  \<open>get_results\<close>. The responses: a JSON reply with a status code and a dictionary, a
  JSON reply (status 200) with the value that \<open>json.load\<close> read from a file, and a file
  reply with the path, the media type when one is given, and the download name.
  \<open>json_loads\<close> stands for the JSON parser applied to the text of the file.
\<close>

datatype 'j response =
    JSONResponse nat "(string \<times> string) list"
  | JSONContent 'j
  | FileResponse string "string option" string

definition get_results ::
  "(string \<Rightarrow> exn + 'j) \<Rightarrow> state \<Rightarrow> string \<Rightarrow> string \<Rightarrow> exn + 'j response" where
  "get_results json_loads st job_id output_format =
     (case map_of (job_status st) job_id of
        None \<Rightarrow> Inl (HTTPException 404 ''Job not found'')
      | Some job \<Rightarrow>
     (case map_of job ''status'' of
        None \<Rightarrow> Inl (KeyError ''status'')
      | Some status \<Rightarrow>
     if status \<noteq> ''completed'' then
       Inr (JSONResponse 400 [(''status'', status), (''message'', ''Results not available yet'')])
     else
     (case map_of job ''result_path'' of
        None \<Rightarrow> Inl (KeyError ''result_path'')
      | Some result_path \<Rightarrow>
     (case os_listdir (disk st) result_path of
        Inl e \<Rightarrow> Inl e
      | Inr names \<Rightarrow>
     (let result_files = filter (\<lambda>f. os_path_isfile (disk st) (os_path_join result_path f)) names;
          csv_files = filter (\<lambda>f. suffix ''.csv'' f) result_files;
          excel_files = filter (\<lambda>f. suffix ''.xlsx'' f \<or> suffix ''.xls'' f) result_files;
          json_files = filter (\<lambda>f. suffix ''.json'' f) result_files;
          default =
            (if json_files \<noteq> [] then
               (case map_of (nodes (disk st)) (os_path_join result_path (hd json_files)) of
                  Some (File text) \<Rightarrow>
                    (case json_loads text of Inl e \<Rightarrow> Inl e | Inr v \<Rightarrow> Inr (JSONContent v))
                | _ \<Rightarrow> Inl (OSError (''[Errno 2] No such file or directory: '' @
                                      os_path_join result_path (hd json_files))))
             else
               Inr (FileResponse (os_path_join result_path (hd result_files)) None
                      (''result_'' @ job_id @ ''_'' @ hd result_files)))
      in if result_files = [] then Inl (HTTPException 404 ''No results found'')
         else if output_format = ''csv'' then
           (if csv_files \<noteq> [] then
              Inr (FileResponse (os_path_join result_path (hd csv_files)) (Some ''text/csv'')
                     (''result_'' @ job_id @ ''.csv''))
            else default)
         else if output_format = ''excel'' then
           (if excel_files \<noteq> [] then
              Inr (FileResponse (os_path_join result_path (hd excel_files))
                     (Some ''application/vnd.openxmlformats-officedocument.spreadsheetml.sheet'')
                     (''result_'' @ job_id @ ''.xlsx''))
            else default)
         else default)))))"

section \<open>services/cleanup\_service.py: the retention sweeper\<close>

text \<open>
  The three deletions that \<open>cleanup_old_jobs\<close> and \<open>cleanup_job_files\<close> both make for a
  job record, in the same order; each has the form
  \<open>if field in job and os.path.exists(job[field]): remove(job[field])\<close>. The first call
  that raises ends the sequence; what the earlier calls removed stays removed.
\<close>

definition remove_if_exists ::
  "(filesystem \<Rightarrow> string \<Rightarrow> exn + filesystem) \<Rightarrow> job \<Rightarrow> string \<Rightarrow> filesystem \<Rightarrow> exn + filesystem" where
  "remove_if_exists remove job field d =
     (case map_of job field of
        Some p \<Rightarrow> if os_path_exists d p then remove d p else Inr d
      | None \<Rightarrow> Inr d)"

definition remove_artifacts :: "job \<Rightarrow> filesystem \<Rightarrow> exn option \<times> filesystem" where
  "remove_artifacts job d =
     (case remove_if_exists os_remove job ''file_path'' d of
        Inl e \<Rightarrow> (Some e, d)
      | Inr d1 \<Rightarrow>
     (case remove_if_exists os_remove job ''code_path'' d1 of
        Inl e \<Rightarrow> (Some e, d1)
      | Inr d2 \<Rightarrow>
     (case remove_if_exists shutil_rmtree job ''result_path'' d2 of
        Inl e \<Rightarrow> (Some e, d2)
      | Inr d3 \<Rightarrow> (None, d3))))"

text \<open>
  Times are points of one time line, counted in microseconds; \<open>fromisoformat\<close> stands for
  \<open>datetime.fromisoformat\<close>, which raises \<open>ValueError\<close> on a text that it cannot read.
\<close>

definition one_day :: int where
  "one_day = 86400000000"

text \<open>The first loop of a cycle: the ids whose time stamp lies before the cutoff.\<close>

fun jobs_to_delete :: "(string \<Rightarrow> exn + int) \<Rightarrow> int \<Rightarrow> registry \<Rightarrow> exn + string list" where
  "jobs_to_delete fromisoformat cutoff_time [] = Inr []"
| "jobs_to_delete fromisoformat cutoff_time ((job_id, job) # items) =
     (case map_of job ''timestamp'' of
        None \<Rightarrow> Inl (KeyError ''timestamp'')
      | Some ts \<Rightarrow>
          (case fromisoformat ts of
             Inl e \<Rightarrow> Inl e
           | Inr job_time \<Rightarrow>
               (case jobs_to_delete fromisoformat cutoff_time items of
                  Inl e \<Rightarrow> Inl e
                | Inr ids \<Rightarrow> Inr (if job_time < cutoff_time then job_id # ids else ids))))"

text \<open>
  The body of the second loop for one id: an exception raised while the artifacts are
  deleted is swallowed, and then the job is not deleted from the registry.
\<close>

definition sweep_job :: "string \<Rightarrow> state \<Rightarrow> state" where
  "sweep_job job_id st =
     (case map_of (job_status st) job_id of
        None \<Rightarrow> st
      | Some job \<Rightarrow>
          (case remove_artifacts job (disk st) of
             (Some e, d) \<Rightarrow> st\<lparr>disk := d\<rparr>
           | (None, d) \<Rightarrow> st\<lparr>job_status := delete_job job_id (job_status st), disk := d\<rparr>))"

text \<open>
  One cycle of \<open>cleanup_old_jobs\<close>, between two sleeps, at the time \<open>now\<close>. An exception
  in the first loop ends the cycle before anything is deleted.
\<close>

definition cleanup_old_jobs_cycle :: "(string \<Rightarrow> exn + int) \<Rightarrow> int \<Rightarrow> state \<Rightarrow> state" where
  "cleanup_old_jobs_cycle fromisoformat now st =
     (let cutoff_time = now - one_day in
      case jobs_to_delete fromisoformat cutoff_time (job_status st) of
        Inl e \<Rightarrow> st
      | Inr ids \<Rightarrow> fold sweep_job ids st)"

definition cleanup_job_files :: "string \<Rightarrow> state \<Rightarrow> bool \<times> state" where
  "cleanup_job_files job_id st =
     (case map_of (job_status st) job_id of
        None \<Rightarrow> (False, st)
      | Some job \<Rightarrow>
          (case remove_artifacts job (disk st) of
             (Some e, d) \<Rightarrow> (False, st\<lparr>disk := d\<rparr>)
           | (None, d) \<Rightarrow> (True, st\<lparr>disk := d\<rparr>)))"

text \<open>The route \<open>DELETE /cleanup/{job_id}\<close>.\<close>

definition cleanup_job :: "string \<Rightarrow> state \<Rightarrow> (exn + (string \<times> string) list) \<times> state" where
  "cleanup_job job_id st =
     (if job_id \<notin> fst ` set (job_status st) then (Inl (HTTPException 404 ''Job not found''), st)
      else
        case cleanup_job_files job_id st of
          (True, st') \<Rightarrow>
            (Inr [(''message'', ''Job '' @ job_id @ '' cleaned up successfully'')],
             st'\<lparr>job_status := delete_job job_id (job_status st')\<rparr>)
        | (False, st') \<Rightarrow>
            (Inl (HTTPException 500
                    (''Error cleaning up job: '' @ str_exn (HTTPException 500 ''Error cleaning up job files''))),
             st'))"

section \<open>The operations of the running system\<close>

text \<open>
  The operations that change the registry after a job has been created: a code
  submission through its route, one run of the executor for a dispatched task, with the
  host's answer, one cycle of the sweeper, and the deletion route.
\<close>

datatype operation =
    SubmitCode string string
  | RunExecutor string task outcome
  | SweeperCycle int
  | CleanupJob string

fun concerns :: "string \<Rightarrow> operation \<Rightarrow> bool" where
  "concerns j (SubmitCode job_id body) = (job_id = j)"
| "concerns j (RunExecutor os_name t oc) = (task_job_id t = j)"
| "concerns j (SweeperCycle now) = False"
| "concerns j (CleanupJob job_id) = False"

fun apply_operation :: "(exn \<Rightarrow> string) \<Rightarrow> (string \<Rightarrow> exn + int) \<Rightarrow> operation \<Rightarrow> state \<Rightarrow> state" where
  "apply_operation format_exc fromisoformat (SubmitCode job_id body) st =
     fst (snd (post_submit_code st job_id body []))"
| "apply_operation format_exc fromisoformat (RunExecutor os_name t oc) st =
     st\<lparr>job_status :=
          fst (execute_code_in_sandbox format_exc os_name (task_job_id t) (task_file_path t)
                 (task_code_path t) (task_result_path t) (task_max_execution_time t) oc
                 (job_status st))\<rparr>"
| "apply_operation format_exc fromisoformat (SweeperCycle now) st =
     cleanup_old_jobs_cycle fromisoformat now st"
| "apply_operation format_exc fromisoformat (CleanupJob job_id) st = snd (cleanup_job job_id st)"

definition status_of :: "state \<Rightarrow> string \<Rightarrow> string option" where
  "status_of st j = job_field (job_status st) j ''status''"

definition terminal :: "string \<Rightarrow> bool" where
  "terminal s = (s = ''completed'' \<or> s = ''failed'' \<or> s = ''timeout'')"

section \<open>Notions used in the statements\<close>

text \<open>
  A job is expired at a cutoff when its time stamp can be read and lies before the
  cutoff. The artifacts of a job are the paths stored in its record.
\<close>

definition is_expired :: "(string \<Rightarrow> exn + int) \<Rightarrow> int \<Rightarrow> job \<Rightarrow> bool" where
  "is_expired fromisoformat cutoff_time job =
     (case map_of job ''timestamp'' of
        None \<Rightarrow> False
      | Some ts \<Rightarrow>
          (case fromisoformat ts of Inl e \<Rightarrow> False | Inr job_time \<Rightarrow> job_time < cutoff_time))"

definition artifacts :: "job \<Rightarrow> string list" where
  "artifacts job = List.map_filter (map_of job) [''file_path'', ''code_path'', ''result_path'']"

text \<open>
  The host lets a job's artifacts be deleted when each stored path that exists is of the
  right kind (a file for the input and the code, a directory for the results) and the
  host refuses neither the path nor, for the directory, anything beneath it.
\<close>

definition removable_file :: "filesystem \<Rightarrow> string \<Rightarrow> bool" where
  "removable_file d p =
     (case map_of (nodes d) p of
        None \<Rightarrow> True
      | Some (File c) \<Rightarrow> p \<notin> denied d
      | Some Dir \<Rightarrow> False)"

definition removable_tree :: "filesystem \<Rightarrow> string \<Rightarrow> bool" where
  "removable_tree d p =
     (case map_of (nodes d) p of
        None \<Rightarrow> True
      | Some (File c) \<Rightarrow> False
      | Some Dir \<Rightarrow> \<not> (\<exists>q \<in> fst ` set (nodes d). within p q \<and> q \<in> denied d))"

definition deletable :: "filesystem \<Rightarrow> job \<Rightarrow> bool" where
  "deletable d job =
     ((case map_of job ''file_path'' of None \<Rightarrow> True | Some p \<Rightarrow> removable_file d p) \<and>
      (case map_of job ''code_path'' of None \<Rightarrow> True | Some p \<Rightarrow> removable_file d p) \<and>
      (case map_of job ''result_path'' of None \<Rightarrow> True | Some p \<Rightarrow> removable_tree d p))"

text \<open>\<open>shrinks d' d\<close>: the file system \<open>d'\<close> is \<open>d\<close> with some entries deleted.\<close>

definition shrinks :: "filesystem \<Rightarrow> filesystem \<Rightarrow> bool" where
  "shrinks d' d =
     (denied d' = denied d \<and>
      (\<forall>p. map_of (nodes d') p = None \<or> map_of (nodes d') p = map_of (nodes d) p))"

section \<open>Example states\<close>

text \<open>
  A reader of time stamps that knows two texts, eight days apart, and raises on any
  other text.
\<close>

definition example_fromisoformat :: "string \<Rightarrow> exn + int" where
  "example_fromisoformat ts =
     (if ts = ''2024-01-01T00:00:00'' then Inr 0
      else if ts = ''2024-01-09T00:00:00'' then Inr 691200000000
      else Inl (ValueError (''Invalid isoformat string: '' @ ts)))"

text \<open>
  Three jobs: \<open>a\<close> and \<open>b\<close> were created on the first day, \<open>c\<close> on the ninth. The host
  refuses to delete the input file of \<open>a\<close>.
\<close>

definition example_job :: "string \<Rightarrow> string \<Rightarrow> string \<Rightarrow> job" where
  "example_job job_id status ts =
     [(''id'', job_id), (''filename'', ''data.csv''), (''status'', status), (''timestamp'', ts),
      (''file_path'', ''/tmp/file_processor/uploads/'' @ job_id @ ''_data.csv''),
      (''code_path'', ''/tmp/file_processor/code/'' @ job_id @ ''_process.py''),
      (''result_path'', ''/tmp/file_processor/results/'' @ job_id)]"

definition example_files :: "string \<Rightarrow> (string \<times> node) list" where
  "example_files job_id =
     [(''/tmp/file_processor/uploads/'' @ job_id @ ''_data.csv'', File ''x,y''),
      (''/tmp/file_processor/code/'' @ job_id @ ''_process.py'', File ''print(1)''),
      (''/tmp/file_processor/results/'' @ job_id, Dir),
      (''/tmp/file_processor/results/'' @ job_id @ ''/out.json'', File ''{}'')]"

definition example_state :: state where
  "example_state =
     \<lparr>job_status =
        [(''a'', example_job ''a'' ''completed'' ''2024-01-01T00:00:00''),
         (''b'', example_job ''b'' ''failed'' ''2024-01-01T00:00:00''),
         (''c'', example_job ''c'' ''completed'' ''2024-01-09T00:00:00'')],
      disk = \<lparr>nodes = example_files ''a'' @ example_files ''b'' @ example_files ''c'',
               denied = {''/tmp/file_processor/uploads/a_data.csv''}\<rparr>\<rparr>"

text \<open>The time of the example sweep: one hour into the ninth day.\<close>

definition example_now :: int where
  "example_now = 691200000000 + 3600000000"

text \<open>
  A JSON parser that reads the text \<open>{}\<close> and raises on any other text, and two completed
  jobs: the result directory of \<open>e\<close> holds no file, that of \<open>u\<close> holds a \<open>.json\<close> file that
  is not JSON and a text file.
\<close>

definition example_json_loads :: "string \<Rightarrow> exn + string" where
  "example_json_loads content =
     (if content = ''{}'' then Inr ''{}''
      else Inl (JSONDecodeError ''Expecting value: line 1 column 1 (char 0)''))"

definition example_results_state :: state where
  "example_results_state =
     \<lparr>job_status =
        [(''e'', example_job ''e'' ''completed'' ''2024-01-09T00:00:00''),
         (''u'', example_job ''u'' ''completed'' ''2024-01-09T00:00:00'')],
      disk = \<lparr>nodes = [(''/tmp/file_processor/results/e'', Dir),
                       (''/tmp/file_processor/results/u'', Dir),
                       (''/tmp/file_processor/results/u/bad.json'', File ''not json''),
                       (''/tmp/file_processor/results/u/notes.txt'', File ''hello'')],
               denied = {}\<rparr>\<rparr>"

section \<open>Properties of the registry\<close>

lemma map_of_map_entry_other:
  "j \<noteq> k \<Longrightarrow> map_of (AList.map_entry k f xs) j = map_of xs j"
  by (simp add: map_of_map_entry)

lemma map_of_map_entry_same:
  "map_of xs k = Some v \<Longrightarrow> map_of (AList.map_entry k f xs) k = Some (f v)"
  by (simp add: map_of_map_entry)

lemma keys_map_entry: "map fst (AList.map_entry k f xs) = map fst xs"
  by (induction xs) auto

lemma fold_kwargs_other:
  "j \<noteq> k \<Longrightarrow>
   map_of (fold (\<lambda>(key, value). AList.map_entry k (AList.update key value)) kw xs) j = map_of xs j"
  by (induction kw arbitrary: xs) (auto simp: map_of_map_entry_other)

lemma fold_kwargs_keys:
  "map fst (fold (\<lambda>(key, value). AList.map_entry k (AList.update key value)) kw xs) = map fst xs"
  by (induction kw arbitrary: xs) (auto simp: keys_map_entry)

lemma fold_kwargs_same:
  "map_of xs k = Some r \<Longrightarrow>
   map_of (fold (\<lambda>(key, value). AList.map_entry k (AList.update key value)) kw xs) k
     = Some (fold (\<lambda>(key, value). AList.update key value) kw r)"
  by (induction kw arbitrary: xs r) (auto simp: map_of_map_entry_same)

lemma fold_update_field:
  "map_of (fold (\<lambda>(key, value). AList.update key value) kw r) f
     = (case map_of (rev kw) f of None \<Rightarrow> map_of r f | Some v \<Rightarrow> Some v)"
  by (induction kw arbitrary: r) (auto simp: update_conv' split: option.splits)

lemma fold_update_field_other:
  "f \<notin> fst ` set kw \<Longrightarrow> map_of (fold (\<lambda>(key, value). AList.update key value) kw r) f = map_of r f"
  by (induction kw arbitrary: r) (auto simp: update_conv')

text \<open>The record that an update leaves under a registered id.\<close>

lemma update_job_status_record:
  "map_of reg job_id = Some r \<Longrightarrow>
   map_of (update_job_status job_id status kwargs reg) job_id
     = Some (fold (\<lambda>(key, value). AList.update key value) kwargs (AList.update ''status'' status r))"
proof -
  assume r: "map_of reg job_id = Some r"
  then have "job_id \<in> fst ` set reg"
    by (metis map_of_eq_None_iff option.distinct(1))
  with r show ?thesis
    by (simp add: update_job_status_def fold_kwargs_same map_of_map_entry_same)
qed

lemma update_job_status_other:
  "j \<noteq> job_id \<Longrightarrow> map_of (update_job_status job_id status kwargs reg) j = map_of reg j"
  by (simp add: update_job_status_def fold_kwargs_other map_of_map_entry_other)

lemma update_job_status_keys:
  "map fst (update_job_status job_id status kwargs reg) = map fst reg"
  by (simp add: update_job_status_def fold_kwargs_keys keys_map_entry)

text \<open>
  Claim C10. An update of a registered job changes, in that job's record, only the field
  \<open>status\<close> and the fields passed as extra keyword arguments; every other field (such as
  \<open>id\<close>, \<open>filename\<close>, \<open>timestamp\<close>) keeps its value. The records of all other ids are
  unchanged, no id is added or removed, and an update of an unregistered id returns the
  registry as it was.
\<close>

theorem update_job_status_frame:
  "(\<forall>r. map_of reg job_id = Some r \<longrightarrow>
      (\<exists>r'. map_of (update_job_status job_id status kwargs reg) job_id = Some r' \<and>
            (\<forall>f. f \<noteq> ''status'' \<and> f \<notin> fst ` set kwargs \<longrightarrow> map_of r' f = map_of r f))) \<and>
   (\<forall>j. j \<noteq> job_id \<longrightarrow> map_of (update_job_status job_id status kwargs reg) j = map_of reg j) \<and>
   map fst (update_job_status job_id status kwargs reg) = map fst reg \<and>
   (job_id \<notin> fst ` set reg \<longrightarrow> update_job_status job_id status kwargs reg = reg)"
proof (intro conjI allI impI)
  fix r assume r: "map_of reg job_id = Some r"
  let ?r' = "fold (\<lambda>(key, value). AList.update key value) kwargs (AList.update ''status'' status r)"
  have "map_of (update_job_status job_id status kwargs reg) job_id = Some ?r'"
    using r by (rule update_job_status_record)
  moreover have "\<forall>f. f \<noteq> ''status'' \<and> f \<notin> fst ` set kwargs \<longrightarrow> map_of ?r' f = map_of r f"
    by (simp add: fold_update_field_other update_conv')
  ultimately show "\<exists>r'. map_of (update_job_status job_id status kwargs reg) job_id = Some r' \<and>
            (\<forall>f. f \<noteq> ''status'' \<and> f \<notin> fst ` set kwargs \<longrightarrow> map_of r' f = map_of r f)"
    by blast
next
  fix j assume "j \<noteq> job_id"
  then show "map_of (update_job_status job_id status kwargs reg) j = map_of reg j"
    by (rule update_job_status_other)
next
  show "map fst (update_job_status job_id status kwargs reg) = map fst reg"
    by (rule update_job_status_keys)
next
  assume "job_id \<notin> fst ` set reg"
  then show "update_job_status job_id status kwargs reg = reg"
    by (simp add: update_job_status_def)
qed

theorem update_job_status_frame_witness:
  "map_of [(''a'', [(''id'', ''a''), (''status'', ''uploaded'')]), (''b'', [(''status'', ''running'')])] ''a''
     = Some [(''id'', ''a''), (''status'', ''uploaded'')] \<and>
   map_of (update_job_status ''a'' ''failed'' [(''error'', ''boom'')]
             [(''a'', [(''id'', ''a''), (''status'', ''uploaded'')]), (''b'', [(''status'', ''running'')])]) ''a''
     = Some [(''id'', ''a''), (''status'', ''failed''), (''error'', ''boom'')] \<and>
   map_of (update_job_status ''a'' ''failed'' [(''error'', ''boom'')]
             [(''a'', [(''id'', ''a''), (''status'', ''uploaded'')]), (''b'', [(''status'', ''running'')])]) ''b''
     = Some [(''status'', ''running'')] \<and>
   update_job_status ''c'' ''failed'' [(''error'', ''boom'')]
             [(''a'', [(''id'', ''a''), (''status'', ''uploaded'')]), (''b'', [(''status'', ''running'')])]
     = [(''a'', [(''id'', ''a''), (''status'', ''uploaded'')]), (''b'', [(''status'', ''running'')])]"
  using update_job_status_frame [of "[(''a'', [(''id'', ''a''), (''status'', ''uploaded'')]), (''b'', [(''status'', ''running'')])]"
          "''a''" "''failed''" "[(''error'', ''boom'')]"]
  by (simp add: update_job_status_def)

section \<open>Properties of the executor\<close>

lemma update_job_status_dom:
  "fst ` set (update_job_status job_id status kwargs reg) = fst ` set reg"
proof -
  have "set (map fst (update_job_status job_id status kwargs reg)) = set (map fst reg)"
    by (simp only: update_job_status_keys)
  then show ?thesis by simp
qed

lemma registered_iff: "job_id \<in> fst ` set reg \<longleftrightarrow> map_of reg job_id \<noteq> None"
  by (simp add: map_of_eq_None_iff)

text \<open>What a poll shows of any field of any job after an update.\<close>

lemma job_field_update:
  "job_field (update_job_status job_id status kwargs reg) j f =
     (if j = job_id \<and> job_id \<in> fst ` set reg then
        (case map_of (rev kwargs) f of
           Some v \<Rightarrow> Some v
         | None \<Rightarrow> if f = ''status'' then Some status else job_field reg job_id f)
      else job_field reg j f)"
proof (cases "j = job_id")
  case False
  then show ?thesis by (simp add: job_field_def update_job_status_other)
next
  case True
  show ?thesis
  proof (cases "map_of reg job_id")
    case None
    then have "job_id \<notin> fst ` set reg" by (simp add: registered_iff)
    then show ?thesis using True by (simp add: update_job_status_def)
  next
    case (Some r)
    then have "job_id \<in> fst ` set reg" by (simp add: registered_iff)
    then show ?thesis
      using True Some
      by (simp add: job_field_def update_job_status_record fold_update_field update_conv'
               split: option.splits)
  qed
qed

lemmas executor_defs =
  execute_code_in_sandbox_def execute_windows_def execute_unix_def Let_def

lemmas evaluation =
  update_job_status_def job_field_def splitext_ext_def is_sep_def lower_def lower_char_def
  docker_command_def docker_path_def str_int_def decode_utf8_def process_of_def
  sublist_Cons_right

text \<open>
  Claim C3. When the deadline passes before the process exits, on either platform
  branch and for a registered job, the executor kills the process (when its handle shows
  no return code, it ends killed; it is never left running), sets the status to
  \<open>timeout\<close>, not \<open>completed\<close>, and stores the error detail
  \<open>Execution timed out after N seconds\<close> with the configured number of seconds.
\<close>

theorem timeout_sets_timeout_status:
  assumes "job_id \<in> fst ` set reg"
  shows "case execute_code_in_sandbox format_exc os_name job_id file_path code_path result_path
                max_execution_time (TimedOut rc out err) reg of
           (reg', ps) \<Rightarrow>
             job_field reg' job_id ''status'' = Some ''timeout'' \<and>
             job_field reg' job_id ''status'' \<noteq> Some ''completed'' \<and>
             job_field reg' job_id ''error''
               = Some (''Execution timed out after '' @ str_int max_execution_time @ '' seconds'') \<and>
             ps = Some (case rc of None \<Rightarrow> Killed | Some c \<Rightarrow> Terminated c) \<and>
             ps \<noteq> Some Running"
  using assms
  by (cases rc)
     (simp_all add: executor_defs job_field_update update_job_status_dom process_of_def)

theorem timeout_sets_timeout_status_witness:
  "''a'' \<in> fst ` set [(''a'', [(''id'', ''a''), (''status'', ''processing'')])] \<and>
   execute_code_in_sandbox (\<lambda>e. ''Traceback'') ''posix'' ''a'' ''/tmp/up/a_data.csv'' ''/tmp/code/a_process.py''
       ''/tmp/results/a'' 120 (TimedOut None ''partial'' [])
       [(''a'', [(''id'', ''a''), (''status'', ''processing'')])]
     = ([(''a'', [(''id'', ''a''), (''status'', ''timeout''),
                  (''docker_cmd'', ''docker run --rm --memory=512m --cpu-shares=512 --stop-timeout 120 -v /tmp/up/a_data.csv:/data/input_file.csv:ro -v /tmp/code/a_process.py:/data/process.py:ro -v /tmp/results/a:/data/output:rw python-sandbox sh -c cd /data && python -m process''),
                  (''error'', ''Execution timed out after 120 seconds'')])],
        Some Killed)"
  using timeout_sets_timeout_status [where job_id = "''a''"
          and reg = "[(''a'', [(''id'', ''a''), (''status'', ''processing'')])]"
          and format_exc = "\<lambda>e. ''Traceback''" and os_name = "''posix''"
          and file_path = "''/tmp/up/a_data.csv''" and code_path = "''/tmp/code/a_process.py''"
          and result_path = "''/tmp/results/a''" and max_execution_time = 120 and rc = None
          and out = "''partial''" and err = "[]"]
  by (simp add: executor_defs evaluation)

text \<open>
  Claim C5, as the program has it. When the process exits before the deadline and both
  captured streams are well-formed UTF-8, the executor stores the two decoded texts
  under \<open>stdout\<close> and \<open>stderr\<close>; the status becomes \<open>completed\<close> exactly when the exit code
  is zero, and for every other exit code it becomes \<open>failed\<close> with the error detail
  \<open>Exit code: N\<close>, a line break, \<open>Stderr: \<close> and the text of the error stream.
\<close>

theorem exit_code_decides_status:
  assumes "job_id \<in> fst ` set reg"
    and "valid_utf8 (map of_char out)" and "valid_utf8 (map of_char err)"
  shows "case execute_code_in_sandbox format_exc os_name job_id file_path code_path result_path
                max_execution_time (Exited exit_code out err) reg of
           (reg', ps) \<Rightarrow>
             job_field reg' job_id ''stdout'' = Some out \<and>
             job_field reg' job_id ''stderr'' = Some err \<and>
             (job_field reg' job_id ''status'' = Some ''completed'' \<longleftrightarrow> exit_code = 0) \<and>
             (exit_code \<noteq> 0 \<longrightarrow>
                job_field reg' job_id ''status'' = Some ''failed'' \<and>
                job_field reg' job_id ''error''
                  = Some (''Exit code: '' @ str_int exit_code @ [CHR 0x0A] @ ''Stderr: '' @ err)) \<and>
             sublist (str_int exit_code)
               (''Exit code: '' @ str_int exit_code @ [CHR 0x0A] @ ''Stderr: '' @ err) \<and>
             sublist err (''Exit code: '' @ str_int exit_code @ [CHR 0x0A] @ ''Stderr: '' @ err) \<and>
             ps = Some (Terminated exit_code)"
proof -
  have 1: "sublist (str_int exit_code)
             (''Exit code: '' @ str_int exit_code @ [CHR 0x0A] @ ''Stderr: '' @ err)"
    by (rule sublist_appendI)
  have "sublist err ((''Exit code: '' @ str_int exit_code @ [CHR 0x0A] @ ''Stderr: '') @ err)"
    by (rule sublist_append_leftI)
  then have 2: "sublist err (''Exit code: '' @ str_int exit_code @ [CHR 0x0A] @ ''Stderr: '' @ err)"
    by simp
  show ?thesis
    using assms 1 2
    by (simp add: executor_defs job_field_update update_job_status_dom decode_utf8_def)
qed

theorem exit_code_decides_status_witness:
  "''a'' \<in> fst ` set [(''a'', [(''id'', ''a''), (''status'', ''processing'')])] \<and>
   valid_utf8 (map of_char ''done'') \<and> valid_utf8 (map of_char ''KeyError: x'') \<and>
   execute_code_in_sandbox (\<lambda>e. ''Traceback'') ''posix'' ''a'' ''/up/a_data.csv'' ''/code/a_process.py''
       ''/results/a'' 120 (Exited 1 ''done'' ''KeyError: x'')
       [(''a'', [(''id'', ''a''), (''status'', ''processing'')])]
     = ([(''a'', [(''id'', ''a''), (''status'', ''failed''),
                  (''docker_cmd'', ''docker run --rm --memory=512m --cpu-shares=512 --stop-timeout 120 -v /up/a_data.csv:/data/input_file.csv:ro -v /code/a_process.py:/data/process.py:ro -v /results/a:/data/output:rw python-sandbox sh -c cd /data && python -m process''),
                  (''stdout'', ''done''), (''stderr'', ''KeyError: x''),
                  (''error'', ''Exit code: 1'' @ [CHR 0x0A] @ ''Stderr: KeyError: x'')])],
        Some (Terminated 1))"
  using exit_code_decides_status [where job_id = "''a''"
          and reg = "[(''a'', [(''id'', ''a''), (''status'', ''processing'')])]"
          and format_exc = "\<lambda>e. ''Traceback''" and os_name = "''posix''"
          and file_path = "''/up/a_data.csv''" and code_path = "''/code/a_process.py''"
          and result_path = "''/results/a''" and max_execution_time = 120 and exit_code = 1
          and out = "''done''" and err = "''KeyError: x''"]
  by (simp add: executor_defs evaluation)

text \<open>
  The claim as stated fails on output that is not UTF-8: the process exits with code 0
  after writing the single byte \<open>0xFF\<close>; decoding raises, the handler of
  \<open>execute_code_in_sandbox\<close> catches the exception, and the job ends \<open>failed\<close> with
  nothing stored under \<open>stdout\<close>.
\<close>

theorem exit_code_zero_not_completed:
  "job_field
     (fst (execute_code_in_sandbox (\<lambda>e. ''Traceback'') ''posix'' ''a'' ''/up/a_data.csv''
             ''/code/a_process.py'' ''/results/a'' 120 (Exited 0 [CHR 0xFF] [])
             [(''a'', [(''id'', ''a''), (''status'', ''processing'')])]))
     ''a'' ''status'' = Some ''failed'' \<and>
   job_field
     (fst (execute_code_in_sandbox (\<lambda>e. ''Traceback'') ''posix'' ''a'' ''/up/a_data.csv''
             ''/code/a_process.py'' ''/results/a'' 120 (Exited 0 [CHR 0xFF] [])
             [(''a'', [(''id'', ''a''), (''status'', ''processing'')])]))
     ''a'' ''stdout'' = None"
  by (simp add: executor_defs evaluation)

text \<open>
  Claim C6, as the program has it. On a timed-out execution the two platform branches
  return the same result: the same registry, in which the record has the status
  \<open>timeout\<close> and the error detail and in which neither branch stores anything under
  \<open>stdout\<close> or \<open>stderr\<close>, and the same state of the process. Through
  \<open>execute_code_in_sandbox\<close> the records that the two platforms leave agree on every
  field except the diagnostic \<open>docker_cmd\<close>.
\<close>

theorem timeout_branches_agree:
  "execute_windows job_id docker_cmd max_execution_time (TimedOut rc out err) reg
     = execute_unix job_id docker_cmd max_execution_time (TimedOut rc out err) reg \<and>
   job_field (fst (snd (execute_windows job_id docker_cmd max_execution_time (TimedOut rc out err) reg)))
       job_id ''stdout'' = job_field reg job_id ''stdout'' \<and>
   job_field (fst (snd (execute_windows job_id docker_cmd max_execution_time (TimedOut rc out err) reg)))
       job_id ''stderr'' = job_field reg job_id ''stderr'' \<and>
   (\<forall>f. f \<noteq> ''docker_cmd'' \<longrightarrow>
      job_field (fst (execute_code_in_sandbox format_exc ''nt'' job_id file_path code_path
                        result_path max_execution_time (TimedOut rc out err) reg)) job_id f
      = job_field (fst (execute_code_in_sandbox format_exc os_name job_id file_path code_path
                        result_path max_execution_time (TimedOut rc out err) reg)) job_id f)"
  by (cases rc)
     (simp_all add: executor_defs job_field_update update_job_status_dom process_of_def)

theorem timeout_branches_agree_witness:
  "execute_windows ''a'' [''docker'', ''run''] 120 (TimedOut None ''partial output'' [])
       [(''a'', [(''id'', ''a''), (''status'', ''running'')])]
     = execute_unix ''a'' [''docker'', ''run''] 120 (TimedOut None ''partial output'' [])
       [(''a'', [(''id'', ''a''), (''status'', ''running'')])] \<and>
   job_field (fst (snd (execute_windows ''a'' [''docker'', ''run''] 120 (TimedOut None ''partial output'' [])
       [(''a'', [(''id'', ''a''), (''status'', ''running'')])]))) ''a'' ''stdout'' = None"
  using timeout_branches_agree [where job_id = "''a''" and docker_cmd = "[''docker'', ''run'']"
          and max_execution_time = 120 and rc = None and out = "''partial output''" and err = "[]"
          and reg = "[(''a'', [(''id'', ''a''), (''status'', ''running'')])]"]
  by (simp add: executor_defs evaluation)

text \<open>
  The claim as stated fails: for a timed-out execution that had written
  \<open>partial output\<close>, both branches write the same record, without that output.
\<close>

theorem timeout_records_equal:
  "fst (snd (execute_windows ''a'' [''docker'', ''run''] 120 (TimedOut None ''partial output'' [])
         [(''a'', [(''id'', ''a''), (''status'', ''running'')])]))
     = [(''a'', [(''id'', ''a''), (''status'', ''timeout''),
                 (''error'', ''Execution timed out after 120 seconds'')])] \<and>
   fst (snd (execute_unix ''a'' [''docker'', ''run''] 120 (TimedOut None ''partial output'' [])
         [(''a'', [(''id'', ''a''), (''status'', ''running'')])]))
     = [(''a'', [(''id'', ''a''), (''status'', ''timeout''),
                 (''error'', ''Execution timed out after 120 seconds'')])]"
  by (simp add: executor_defs evaluation)

text \<open>
  Claim C9. When launching the sandbox raises, so that no process exists, the executor
  sets the status of a registered job to \<open>failed\<close> with the error detail \<open>Exception: \<close>
  followed by the text of the exception and the traceback. The submitting caller has
  its answer before: a task is dispatched only together with the \<open>processing\<close> response,
  and the executor returns the registry and nothing else.
\<close>

theorem launch_failure_sets_failed:
  "(job_id \<in> fst ` set reg \<longrightarrow>
     (case execute_code_in_sandbox format_exc os_name job_id file_path code_path result_path
             max_execution_time (LaunchError e) reg of
        (reg', ps) \<Rightarrow>
          job_field reg' job_id ''status'' = Some ''failed'' \<and>
          job_field reg' job_id ''error''
            = Some (''Exception: '' @ str_exn e @ [CHR 0x0A] @ format_exc e) \<and>
          sublist (str_exn e) (''Exception: '' @ str_exn e @ [CHR 0x0A] @ format_exc e) \<and>
          ps = None)) \<and>
   (\<forall>t. snd (snd (submit_code st job_id code_submission [])) = [t] \<longrightarrow>
      fst (submit_code st job_id code_submission [])
        = Inr [(''job_id'', job_id), (''status'', ''processing''),
               (''message'', ''Code submitted and processing started'')] \<and>
      task_job_id t = job_id \<and>
      job_id \<in> fst ` set (job_status (fst (snd (submit_code st job_id code_submission [])))))"
proof (intro conjI impI allI)
  assume "job_id \<in> fst ` set reg"
  moreover have "sublist (str_exn e) (''Exception: '' @ str_exn e @ [CHR 0x0A] @ format_exc e)"
    by (rule sublist_appendI)
  ultimately show "case execute_code_in_sandbox format_exc os_name job_id file_path code_path result_path
             max_execution_time (LaunchError e) reg of
        (reg', ps) \<Rightarrow>
          job_field reg' job_id ''status'' = Some ''failed'' \<and>
          job_field reg' job_id ''error''
            = Some (''Exception: '' @ str_exn e @ [CHR 0x0A] @ format_exc e) \<and>
          sublist (str_exn e) (''Exception: '' @ str_exn e @ [CHR 0x0A] @ format_exc e) \<and>
          ps = None"
    by (simp add: executor_defs job_field_update update_job_status_dom)
next
  fix t assume t: "snd (snd (submit_code st job_id code_submission [])) = [t]"
  then show "fst (submit_code st job_id code_submission [])
        = Inr [(''job_id'', job_id), (''status'', ''processing''),
               (''message'', ''Code submitted and processing started'')]"
    by (auto simp: submit_code_def Let_def split: if_splits sum.splits option.splits)
  from t show "task_job_id t = job_id"
    by (auto simp: submit_code_def Let_def split: if_splits sum.splits option.splits)
  from t show "job_id \<in> fst ` set (job_status (fst (snd (submit_code st job_id code_submission []))))"
    by (auto simp: submit_code_def Let_def dom_map_entry split: if_splits sum.splits option.splits)
qed

theorem launch_failure_sets_failed_witness:
  "''a'' \<in> fst ` set [(''a'', [(''id'', ''a''), (''status'', ''processing'')])] \<and>
   execute_code_in_sandbox (\<lambda>e. ''Traceback'') ''posix'' ''a'' ''/up/a_data.csv'' ''/code/a_process.py''
       ''/results/a'' 120 (LaunchError (OSError ''[Errno 2] No such file or directory: docker''))
       [(''a'', [(''id'', ''a''), (''status'', ''processing'')])]
     = ([(''a'', [(''id'', ''a''), (''status'', ''failed''),
                  (''docker_cmd'', ''docker run --rm --memory=512m --cpu-shares=512 --stop-timeout 120 -v /up/a_data.csv:/data/input_file.csv:ro -v /code/a_process.py:/data/process.py:ro -v /results/a:/data/output:rw python-sandbox sh -c cd /data && python -m process''),
                  (''error'', ''Exception: [Errno 2] No such file or directory: docker'' @ [CHR 0x0A] @ ''Traceback'')])],
        None) \<and>
   submit_code
       \<lparr>job_status = [(''a'', [(''id'', ''a''), (''status'', ''uploaded''), (''file_path'', ''/up/a_data.csv'')])],
        disk = \<lparr>nodes = [], denied = {}\<rparr>\<rparr>
       ''a'' \<lparr>code = ''print(1)''\<rparr> []
     = (Inr [(''job_id'', ''a''), (''status'', ''processing''),
             (''message'', ''Code submitted and processing started'')],
        \<lparr>job_status = [(''a'', [(''id'', ''a''), (''status'', ''processing''), (''file_path'', ''/up/a_data.csv''),
                                 (''code_path'', ''/tmp/file_processor/code/a_process.py''),
                                 (''result_path'', ''/tmp/file_processor/results/a'')])],
         disk = \<lparr>nodes = [(''/tmp/file_processor/code/a_process.py'', File ''print(1)''),
                          (''/tmp/file_processor/results/a'', Dir)], denied = {}\<rparr>\<rparr>,
        [\<lparr>task_job_id = ''a'', task_file_path = ''/up/a_data.csv'',
          task_code_path = ''/tmp/file_processor/code/a_process.py'',
          task_result_path = ''/tmp/file_processor/results/a'', task_max_execution_time = 120\<rparr>])"
proof -
  have run: "execute_code_in_sandbox (\<lambda>e. ''Traceback'') ''posix'' ''a'' ''/up/a_data.csv'' ''/code/a_process.py''
       ''/results/a'' 120 (LaunchError (OSError ''[Errno 2] No such file or directory: docker''))
       [(''a'', [(''id'', ''a''), (''status'', ''processing'')])]
     = ([(''a'', [(''id'', ''a''), (''status'', ''failed''),
                  (''docker_cmd'', ''docker run --rm --memory=512m --cpu-shares=512 --stop-timeout 120 -v /up/a_data.csv:/data/input_file.csv:ro -v /code/a_process.py:/data/process.py:ro -v /results/a:/data/output:rw python-sandbox sh -c cd /data && python -m process''),
                  (''error'', ''Exception: [Errno 2] No such file or directory: docker'' @ [CHR 0x0A] @ ''Traceback'')])],
        None)"
    by code_simp
  have submit: "submit_code
       \<lparr>job_status = [(''a'', [(''id'', ''a''), (''status'', ''uploaded''), (''file_path'', ''/up/a_data.csv'')])],
        disk = \<lparr>nodes = [], denied = {}\<rparr>\<rparr>
       ''a'' \<lparr>code = ''print(1)''\<rparr> []
     = (Inr [(''job_id'', ''a''), (''status'', ''processing''),
             (''message'', ''Code submitted and processing started'')],
        \<lparr>job_status = [(''a'', [(''id'', ''a''), (''status'', ''processing''), (''file_path'', ''/up/a_data.csv''),
                                 (''code_path'', ''/tmp/file_processor/code/a_process.py''),
                                 (''result_path'', ''/tmp/file_processor/results/a'')])],
         disk = \<lparr>nodes = [(''/tmp/file_processor/code/a_process.py'', File ''print(1)''),
                          (''/tmp/file_processor/results/a'', Dir)], denied = {}\<rparr>\<rparr>,
        [\<lparr>task_job_id = ''a'', task_file_path = ''/up/a_data.csv'',
          task_code_path = ''/tmp/file_processor/code/a_process.py'',
          task_result_path = ''/tmp/file_processor/results/a'', task_max_execution_time = 120\<rparr>])"
    by code_simp
  have reg: "''a'' \<in> fst ` set [(''a'', [(''id'', ''a''), (''status'', ''processing'')])]"
    by simp
  from launch_failure_sets_failed [where job_id = "''a''"
          and reg = "[(''a'', [(''id'', ''a''), (''status'', ''processing'')])]"
          and format_exc = "\<lambda>e. ''Traceback''" and os_name = "''posix''"
          and file_path = "''/up/a_data.csv''" and code_path = "''/code/a_process.py''"
          and result_path = "''/results/a''" and max_execution_time = 120
          and e = "OSError ''[Errno 2] No such file or directory: docker''"
          and st = "\<lparr>job_status = [(''a'', [(''id'', ''a''), (''status'', ''uploaded''), (''file_path'', ''/up/a_data.csv'')])],
                     disk = \<lparr>nodes = [], denied = {}\<rparr>\<rparr>"
          and code_submission = "\<lparr>code = ''print(1)''\<rparr>"]
  show ?thesis
    unfolding run submit using reg by simp
qed

section \<open>Properties of the code validator\<close>

lemma validate_code_rejects:
  assumes "token \<in> set forbidden_modules" and "sublist token v"
  shows "\<exists>module \<in> set forbidden_modules. sublist module v \<and>
           validate_code v = Inl (ValueError (''Forbidden module or function detected: '' @ module))"
proof (cases "find (\<lambda>module. sublist module v) forbidden_modules")
  case None
  with assms show ?thesis by (auto simp: find_None_iff)
next
  case (Some m)
  then have "m \<in> set forbidden_modules" "sublist m v"
    by (auto simp: find_Some_iff)
  with Some show ?thesis by (auto simp: validate_code_def)
qed

lemma validate_code_accepts:
  assumes "\<forall>token \<in> set forbidden_modules. \<not> sublist token v"
  shows "validate_code v = Inr v"
proof -
  from assms have "find (\<lambda>module. sublist module v) forbidden_modules = None"
    by (simp add: find_None_iff)
  then show ?thesis by (simp add: validate_code_def)
qed

text \<open>
  Claim C4. The denylist is the fixed list of fourteen tokens. A text that contains any
  token of the list as a substring is rejected by the validator, with a message naming
  a token of the list that the text contains, and the route answers with the validation
  error without calling the handler: the registry, the file system and the list of
  background tasks are as before, so no execution is dispatched. A text that contains
  none of the tokens passes the validator unchanged.
\<close>

theorem denylist_rejects_before_launch:
  "(\<forall>token \<in> set forbidden_modules. sublist token v \<longrightarrow>
      (\<exists>module \<in> set forbidden_modules. sublist module v \<and>
         validate_code v = Inl (ValueError (''Forbidden module or function detected: '' @ module)) \<and>
         post_submit_code st job_id v background_tasks =
           (Inl (RequestValidationError (''Forbidden module or function detected: '' @ module)),
            st, background_tasks))) \<and>
   ((\<forall>token \<in> set forbidden_modules. \<not> sublist token v) \<longrightarrow> validate_code v = Inr v) \<and>
   forbidden_modules =
     [''subprocess'', ''os.system'', ''eval('', ''exec('', ''importlib'', ''sys.modules'',
      ''__import__'', ''open('', ''file('', ''execfile('', ''compile('', ''pty'', ''popen'', ''system'']"
proof (intro conjI ballI impI)
  fix token assume "token \<in> set forbidden_modules" "sublist token v"
  then obtain m where m: "m \<in> set forbidden_modules" "sublist m v"
      "validate_code v = Inl (ValueError (''Forbidden module or function detected: '' @ m))"
    using validate_code_rejects by blast
  then have "post_submit_code st job_id v background_tasks =
           (Inl (RequestValidationError (''Forbidden module or function detected: '' @ m)),
            st, background_tasks)"
    by (simp add: post_submit_code_def CodeSubmission_def)
  with m show "\<exists>module \<in> set forbidden_modules. sublist module v \<and>
         validate_code v = Inl (ValueError (''Forbidden module or function detected: '' @ module)) \<and>
         post_submit_code st job_id v background_tasks =
           (Inl (RequestValidationError (''Forbidden module or function detected: '' @ module)),
            st, background_tasks)"
    by blast
next
  assume "\<forall>token \<in> set forbidden_modules. \<not> sublist token v"
  then show "validate_code v = Inr v" by (rule validate_code_accepts)
next
  show "forbidden_modules =
     [''subprocess'', ''os.system'', ''eval('', ''exec('', ''importlib'', ''sys.modules'',
      ''__import__'', ''open('', ''file('', ''execfile('', ''compile('', ''pty'', ''popen'', ''system'']"
    by (simp add: forbidden_modules_def)
qed

theorem denylist_rejects_before_launch_witness:
  "''eval('' \<in> set forbidden_modules \<and> sublist ''eval('' ''x = eval(input())'' \<and>
   validate_code ''x = eval(input())''
     = Inl (ValueError ''Forbidden module or function detected: eval('') \<and>
   post_submit_code
       \<lparr>job_status = [(''a'', [(''id'', ''a''), (''status'', ''uploaded''), (''file_path'', ''/up/a_data.csv'')])],
        disk = \<lparr>nodes = [], denied = {}\<rparr>\<rparr>
       ''a'' ''x = eval(input())'' []
     = (Inl (RequestValidationError ''Forbidden module or function detected: eval(''),
        \<lparr>job_status = [(''a'', [(''id'', ''a''), (''status'', ''uploaded''), (''file_path'', ''/up/a_data.csv'')])],
         disk = \<lparr>nodes = [], denied = {}\<rparr>\<rparr>,
        []) \<and>
   validate_code ''import pandas'' = Inr ''import pandas''"
proof -
  have tok: "''eval('' \<in> set forbidden_modules"
    by (simp add: forbidden_modules_def)
  have sub: "sublist ''eval('' ''x = eval(input())''"
    by code_simp
  have rej: "validate_code ''x = eval(input())''
     = Inl (ValueError ''Forbidden module or function detected: eval('')"
    by code_simp
  have none: "\<forall>token \<in> set forbidden_modules. \<not> sublist token ''import pandas''"
    by code_simp
  from denylist_rejects_before_launch [where v = "''import pandas''"] none
  have acc: "validate_code ''import pandas'' = Inr ''import pandas''"
    by blast
  have route: "post_submit_code
       \<lparr>job_status = [(''a'', [(''id'', ''a''), (''status'', ''uploaded''), (''file_path'', ''/up/a_data.csv'')])],
        disk = \<lparr>nodes = [], denied = {}\<rparr>\<rparr>
       ''a'' ''x = eval(input())'' []
     = (Inl (RequestValidationError ''Forbidden module or function detected: eval(''),
        \<lparr>job_status = [(''a'', [(''id'', ''a''), (''status'', ''uploaded''), (''file_path'', ''/up/a_data.csv'')])],
         disk = \<lparr>nodes = [], denied = {}\<rparr>\<rparr>,
        [])"
    using denylist_rejects_before_launch [where v = "''x = eval(input())''" and job_id = "''a''"
          and background_tasks = "[]"
          and st = "\<lparr>job_status = [(''a'', [(''id'', ''a''), (''status'', ''uploaded''), (''file_path'', ''/up/a_data.csv'')])],
                     disk = \<lparr>nodes = [], denied = {}\<rparr>\<rparr>"] tok sub rej
    by auto
  from tok sub rej route acc show ?thesis by blast
qed

section \<open>Properties of code submission\<close>

lemma submit_code_result:
  assumes reg: "map_of (job_status st) job_id = Some job"
    and fp: "map_of job ''file_path'' = Some file_path"
    and w: "open_write (disk st) (os_path_join CODE_FOLDER (job_id @ ''_process.py''))
              (code code_submission) = Inr d1"
    and m: "os_makedirs d1 (os_path_join RESULTS_FOLDER job_id) = Inr d2"
  shows "submit_code st job_id code_submission background_tasks =
     (Inr [(''job_id'', job_id), (''status'', ''processing''),
           (''message'', ''Code submitted and processing started'')],
      st\<lparr>job_status :=
            AList.map_entry job_id
              (AList.update ''result_path'' (os_path_join RESULTS_FOLDER job_id))
              (AList.map_entry job_id
                 (AList.update ''code_path'' (os_path_join CODE_FOLDER (job_id @ ''_process.py'')))
                 (AList.map_entry job_id (AList.update ''status'' ''processing'') (job_status st))),
         disk := d2\<rparr>,
      background_tasks @
        [\<lparr>task_job_id = job_id, task_file_path = file_path,
          task_code_path = os_path_join CODE_FOLDER (job_id @ ''_process.py''),
          task_result_path = os_path_join RESULTS_FOLDER job_id,
          task_max_execution_time = MAX_EXECUTION_TIME\<rparr>])"
proof -
  from reg have in_reg: "job_id \<in> fst ` set (job_status st)"
    by (simp add: registered_iff)
  have "map_of (get_job_status job_id
            (AList.map_entry job_id
              (AList.update ''result_path'' (os_path_join RESULTS_FOLDER job_id))
              (AList.map_entry job_id
                 (AList.update ''code_path'' (os_path_join CODE_FOLDER (job_id @ ''_process.py'')))
                 (AList.map_entry job_id (AList.update ''status'' ''processing'') (job_status st)))))
          ''file_path'' = Some file_path"
    using reg fp by (simp add: get_job_status_def map_of_map_entry update_conv')
  then show ?thesis
    using in_reg w m by (simp add: submit_code_def Let_def)
qed

lemma open_write_node:
  "open_write d p text = Inr d1 \<Longrightarrow> map_of (nodes d1) p = Some (File text) \<and> denied d1 = denied d"
  by (auto simp: open_write_def update_conv' split: option.splits node.splits if_splits)

lemma os_makedirs_node:
  "os_makedirs d1 q = Inr d2 \<Longrightarrow> map_of (nodes d1) p = Some (File text) \<Longrightarrow>
   map_of (nodes d2) p = Some (File text) \<and> map_of (nodes d2) q = Some Dir"
  by (auto simp: os_makedirs_def update_conv' split: option.splits node.splits if_splits)

lemma submit_code_never_conflict:
  "fst (submit_code st job_id code_submission background_tasks) \<noteq> Inl (HTTPException 409 m)"
  by (simp add: submit_code_def Let_def split: sum.splits option.splits)

text \<open>
  Claim C1, as the program has it. \<open>submit_code\<close> never answers with a conflict. For a
  registered job, whatever its status, a submission whose code file and result directory
  can be written is accepted: the answer is \<open>processing\<close>, the status becomes
  \<open>processing\<close>, the code path and the result path (both built from the job id alone, so
  the same at every submission) are stored, the code file holds the submitted text, the
  result directory exists, and one execution is added to the background tasks.
\<close>

theorem submit_code_accepts_any_status:
  assumes "map_of (job_status st) job_id = Some job"
    and "map_of job ''file_path'' = Some file_path"
    and "open_write (disk st) (os_path_join CODE_FOLDER (job_id @ ''_process.py''))
           (code code_submission) = Inr d1"
    and "os_makedirs d1 (os_path_join RESULTS_FOLDER job_id) = Inr d2"
  shows "case submit_code st job_id code_submission background_tasks of
           (response, st', tasks') \<Rightarrow>
             response = Inr [(''job_id'', job_id), (''status'', ''processing''),
                             (''message'', ''Code submitted and processing started'')] \<and>
             (\<forall>m. response \<noteq> Inl (HTTPException 409 m)) \<and>
             job_field (job_status st') job_id ''status'' = Some ''processing'' \<and>
             job_field (job_status st') job_id ''code_path''
               = Some (os_path_join CODE_FOLDER (job_id @ ''_process.py'')) \<and>
             job_field (job_status st') job_id ''result_path''
               = Some (os_path_join RESULTS_FOLDER job_id) \<and>
             map_of (nodes (disk st')) (os_path_join CODE_FOLDER (job_id @ ''_process.py''))
               = Some (File (code code_submission)) \<and>
             map_of (nodes (disk st')) (os_path_join RESULTS_FOLDER job_id) = Some Dir \<and>
             tasks' = background_tasks @
               [\<lparr>task_job_id = job_id, task_file_path = file_path,
                 task_code_path = os_path_join CODE_FOLDER (job_id @ ''_process.py''),
                 task_result_path = os_path_join RESULTS_FOLDER job_id,
                 task_max_execution_time = MAX_EXECUTION_TIME\<rparr>]"
proof -
  note res = submit_code_result [OF assms, of background_tasks]
  from assms(3) have n1: "map_of (nodes d1) (os_path_join CODE_FOLDER (job_id @ ''_process.py''))
      = Some (File (code code_submission))"
    by (simp add: open_write_node)
  from os_makedirs_node [OF assms(4) n1]
  have n2: "map_of (nodes d2) (os_path_join CODE_FOLDER (job_id @ ''_process.py''))
      = Some (File (code code_submission))"
    and n3: "map_of (nodes d2) (os_path_join RESULTS_FOLDER job_id) = Some Dir"
    by simp_all
  show ?thesis
    using assms(1) n2 n3
    by (simp add: res job_field_def map_of_map_entry update_conv')
qed

theorem submit_code_accepts_any_status_witness:
  "map_of (job_status
       \<lparr>job_status = [(''a'', [(''id'', ''a''), (''status'', ''completed''), (''file_path'', ''/up/a_data.csv''),
                               (''code_path'', ''/tmp/file_processor/code/a_process.py''),
                               (''result_path'', ''/tmp/file_processor/results/a'')])],
        disk = \<lparr>nodes = [(''/tmp/file_processor/code/a_process.py'', File ''print(1)''),
                         (''/tmp/file_processor/results/a'', Dir)], denied = {}\<rparr>\<rparr>) ''a''
     = Some [(''id'', ''a''), (''status'', ''completed''), (''file_path'', ''/up/a_data.csv''),
             (''code_path'', ''/tmp/file_processor/code/a_process.py''),
             (''result_path'', ''/tmp/file_processor/results/a'')] \<and>
   open_write \<lparr>nodes = [(''/tmp/file_processor/code/a_process.py'', File ''print(1)''),
                        (''/tmp/file_processor/results/a'', Dir)], denied = {}\<rparr>
       (os_path_join CODE_FOLDER (''a'' @ ''_process.py'')) ''print(2)''
     = Inr \<lparr>nodes = [(''/tmp/file_processor/code/a_process.py'', File ''print(2)''),
                      (''/tmp/file_processor/results/a'', Dir)], denied = {}\<rparr> \<and>
   os_makedirs \<lparr>nodes = [(''/tmp/file_processor/code/a_process.py'', File ''print(2)''),
                         (''/tmp/file_processor/results/a'', Dir)], denied = {}\<rparr>
       (os_path_join RESULTS_FOLDER ''a'')
     = Inr \<lparr>nodes = [(''/tmp/file_processor/code/a_process.py'', File ''print(2)''),
                      (''/tmp/file_processor/results/a'', Dir)], denied = {}\<rparr> \<and>
   fst (submit_code
       \<lparr>job_status = [(''a'', [(''id'', ''a''), (''status'', ''completed''), (''file_path'', ''/up/a_data.csv''),
                               (''code_path'', ''/tmp/file_processor/code/a_process.py''),
                               (''result_path'', ''/tmp/file_processor/results/a'')])],
        disk = \<lparr>nodes = [(''/tmp/file_processor/code/a_process.py'', File ''print(1)''),
                         (''/tmp/file_processor/results/a'', Dir)], denied = {}\<rparr>\<rparr>
       ''a'' \<lparr>code = ''print(2)''\<rparr> [])
     = Inr [(''job_id'', ''a''), (''status'', ''processing''),
            (''message'', ''Code submitted and processing started'')] \<and>
   job_field (job_status (fst (snd (submit_code
       \<lparr>job_status = [(''a'', [(''id'', ''a''), (''status'', ''completed''), (''file_path'', ''/up/a_data.csv''),
                               (''code_path'', ''/tmp/file_processor/code/a_process.py''),
                               (''result_path'', ''/tmp/file_processor/results/a'')])],
        disk = \<lparr>nodes = [(''/tmp/file_processor/code/a_process.py'', File ''print(1)''),
                         (''/tmp/file_processor/results/a'', Dir)], denied = {}\<rparr>\<rparr>
       ''a'' \<lparr>code = ''print(2)''\<rparr> [])))) ''a'' ''status'' = Some ''processing''"
proof -
  have h1: "map_of (job_status
       \<lparr>job_status = [(''a'', [(''id'', ''a''), (''status'', ''completed''), (''file_path'', ''/up/a_data.csv''),
                               (''code_path'', ''/tmp/file_processor/code/a_process.py''),
                               (''result_path'', ''/tmp/file_processor/results/a'')])],
        disk = \<lparr>nodes = [(''/tmp/file_processor/code/a_process.py'', File ''print(1)''),
                         (''/tmp/file_processor/results/a'', Dir)], denied = {}\<rparr>\<rparr>) ''a''
     = Some [(''id'', ''a''), (''status'', ''completed''), (''file_path'', ''/up/a_data.csv''),
             (''code_path'', ''/tmp/file_processor/code/a_process.py''),
             (''result_path'', ''/tmp/file_processor/results/a'')]"
    by simp
  have h2: "map_of [(''id'', ''a''), (''status'', ''completed''), (''file_path'', ''/up/a_data.csv''),
             (''code_path'', ''/tmp/file_processor/code/a_process.py''),
             (''result_path'', ''/tmp/file_processor/results/a'')] ''file_path'' = Some ''/up/a_data.csv''"
    by simp
  have h3: "open_write (disk
       \<lparr>job_status = [(''a'', [(''id'', ''a''), (''status'', ''completed''), (''file_path'', ''/up/a_data.csv''),
                               (''code_path'', ''/tmp/file_processor/code/a_process.py''),
                               (''result_path'', ''/tmp/file_processor/results/a'')])],
        disk = \<lparr>nodes = [(''/tmp/file_processor/code/a_process.py'', File ''print(1)''),
                         (''/tmp/file_processor/results/a'', Dir)], denied = {}\<rparr>\<rparr>)
       (os_path_join CODE_FOLDER (''a'' @ ''_process.py'')) (code \<lparr>code = ''print(2)''\<rparr>)
     = Inr \<lparr>nodes = [(''/tmp/file_processor/code/a_process.py'', File ''print(2)''),
                      (''/tmp/file_processor/results/a'', Dir)], denied = {}\<rparr>"
    by code_simp
  have h4: "os_makedirs \<lparr>nodes = [(''/tmp/file_processor/code/a_process.py'', File ''print(2)''),
                         (''/tmp/file_processor/results/a'', Dir)], denied = {}\<rparr>
       (os_path_join RESULTS_FOLDER ''a'')
     = Inr \<lparr>nodes = [(''/tmp/file_processor/code/a_process.py'', File ''print(2)''),
                      (''/tmp/file_processor/results/a'', Dir)], denied = {}\<rparr>"
    by code_simp
  from submit_code_accepts_any_status [OF h1 h2 h3 h4, of "[]"] h1 h3 h4
  show ?thesis
    by (simp add: case_prod_beta)
qed

text \<open>
  The claim as stated fails: a job that is \<open>completed\<close> after a first submission accepts a
  second one. The answer is \<open>processing\<close>, not a conflict; the status goes back to
  \<open>processing\<close>, the code file is overwritten, and a second execution is dispatched.
\<close>

theorem submit_code_twice_accepted:
  "submit_code
       \<lparr>job_status = [(''a'', [(''id'', ''a''), (''status'', ''completed''), (''file_path'', ''/up/a_data.csv''),
                               (''code_path'', ''/tmp/file_processor/code/a_process.py''),
                               (''result_path'', ''/tmp/file_processor/results/a'')])],
        disk = \<lparr>nodes = [(''/tmp/file_processor/code/a_process.py'', File ''print(1)''),
                         (''/tmp/file_processor/results/a'', Dir)], denied = {}\<rparr>\<rparr>
       ''a'' \<lparr>code = ''print(2)''\<rparr> []
     = (Inr [(''job_id'', ''a''), (''status'', ''processing''),
             (''message'', ''Code submitted and processing started'')],
        \<lparr>job_status = [(''a'', [(''id'', ''a''), (''status'', ''processing''), (''file_path'', ''/up/a_data.csv''),
                                (''code_path'', ''/tmp/file_processor/code/a_process.py''),
                                (''result_path'', ''/tmp/file_processor/results/a'')])],
         disk = \<lparr>nodes = [(''/tmp/file_processor/code/a_process.py'', File ''print(2)''),
                          (''/tmp/file_processor/results/a'', Dir)], denied = {}\<rparr>\<rparr>,
        [\<lparr>task_job_id = ''a'', task_file_path = ''/up/a_data.csv'',
          task_code_path = ''/tmp/file_processor/code/a_process.py'',
          task_result_path = ''/tmp/file_processor/results/a'', task_max_execution_time = 120\<rparr>])"
  by code_simp

section \<open>Properties of the retention sweeper\<close>

lemma shrinks_refl: "shrinks d d"
  by (simp add: shrinks_def)

lemma shrinks_trans: "shrinks d2 d1 \<Longrightarrow> shrinks d1 d \<Longrightarrow> shrinks d2 d"
  unfolding shrinks_def by metis

lemma shrinks_gone: "shrinks d' d \<Longrightarrow> map_of (nodes d) p = None \<Longrightarrow> map_of (nodes d') p = None"
  unfolding shrinks_def by metis

lemma shrinks_keys: "shrinks d' d \<Longrightarrow> q \<in> fst ` set (nodes d') \<Longrightarrow> q \<in> fst ` set (nodes d)"
  unfolding shrinks_def registered_iff by metis

lemma map_of_filter_key:
  "map_of (filter (\<lambda>(q, n). P q) xs) k = (if P k then map_of xs k else None)"
  by (induction xs) auto

lemma os_remove_shrinks:
  "os_remove d p = Inr d' \<Longrightarrow> shrinks d' d \<and> map_of (nodes d') p = None"
  by (auto simp: os_remove_def shrinks_def delete_conv' split: option.splits node.splits if_splits)

lemma shutil_rmtree_shrinks:
  "shutil_rmtree d p = Inr d' \<Longrightarrow> shrinks d' d \<and> map_of (nodes d') p = None"
  by (auto simp: shutil_rmtree_def shrinks_def map_of_filter_key within_def
           split: option.splits node.splits if_splits)

lemma removable_file_shrinks:
  assumes s: "shrinks d' d" and r: "removable_file d p"
  shows "removable_file d' p"
proof -
  from s have dn: "denied d' = denied d"
    by (simp add: shrinks_def)
  from s have "map_of (nodes d') p = None \<or> map_of (nodes d') p = map_of (nodes d) p"
    by (simp add: shrinks_def)
  then show ?thesis
  proof
    assume "map_of (nodes d') p = None"
    then show ?thesis by (simp add: removable_file_def)
  next
    assume "map_of (nodes d') p = map_of (nodes d) p"
    with dn have "removable_file d' p = removable_file d p"
      by (simp add: removable_file_def split: option.splits node.splits)
    with r show ?thesis by simp
  qed
qed

lemma removable_tree_shrinks:
  assumes s: "shrinks d' d" and r: "removable_tree d p"
  shows "removable_tree d' p"
proof -
  from s have dn: "denied d' = denied d"
    by (simp add: shrinks_def)
  from s have "map_of (nodes d') p = None \<or> map_of (nodes d') p = map_of (nodes d) p"
    by (simp add: shrinks_def)
  then show ?thesis
  proof
    assume "map_of (nodes d') p = None"
    then show ?thesis by (simp add: removable_tree_def)
  next
    assume e: "map_of (nodes d') p = map_of (nodes d) p"
    show ?thesis
    proof (cases "map_of (nodes d) p")
      case None
      with e show ?thesis by (simp add: removable_tree_def)
    next
      case (Some n)
      show ?thesis
      proof (cases n)
        case (File c)
        with Some r show ?thesis by (simp add: removable_tree_def)
      next
        case Dir
        with Some r have no: "\<not> (\<exists>q \<in> fst ` set (nodes d). within p q \<and> q \<in> denied d)"
          by (simp add: removable_tree_def)
        have "\<not> (\<exists>q \<in> fst ` set (nodes d'). within p q \<and> q \<in> denied d')"
        proof
          assume "\<exists>q \<in> fst ` set (nodes d'). within p q \<and> q \<in> denied d'"
          then obtain q where q: "q \<in> fst ` set (nodes d')" "within p q" "q \<in> denied d'"
            by blast
          from s q(1) have "q \<in> fst ` set (nodes d)" by (rule shrinks_keys)
          with q(2) q(3) dn no show False by blast
        qed
        with e Some Dir show ?thesis by (simp add: removable_tree_def)
      qed
    qed
  qed
qed

lemma deletable_shrinks:
  assumes s: "shrinks d' d" and del: "deletable d job"
  shows "deletable d' job"
proof -
  have "case map_of job ''file_path'' of None \<Rightarrow> True | Some p \<Rightarrow> removable_file d' p"
    using del by (cases "map_of job ''file_path''") (simp_all add: deletable_def removable_file_shrinks [OF s])
  moreover
  have "case map_of job ''code_path'' of None \<Rightarrow> True | Some p \<Rightarrow> removable_file d' p"
    using del by (cases "map_of job ''code_path''") (simp_all add: deletable_def removable_file_shrinks [OF s])
  moreover
  have "case map_of job ''result_path'' of None \<Rightarrow> True | Some p \<Rightarrow> removable_tree d' p"
    using del by (cases "map_of job ''result_path''") (simp_all add: deletable_def removable_tree_shrinks [OF s])
  ultimately show ?thesis by (simp add: deletable_def)
qed

lemma os_remove_removable:
  "removable_file d p \<Longrightarrow> os_path_exists d p \<Longrightarrow> \<exists>d'. os_remove d p = Inr d'"
  by (auto simp: removable_file_def os_path_exists_def os_remove_def split: option.splits node.splits)

lemma shutil_rmtree_removable:
  "removable_tree d p \<Longrightarrow> os_path_exists d p \<Longrightarrow> \<exists>d'. shutil_rmtree d p = Inr d'"
  by (auto simp: removable_tree_def os_path_exists_def shutil_rmtree_def split: option.splits node.splits)

text \<open>One guarded deletion: what it leaves when it returns, and when it returns.\<close>

lemma remove_if_exists_shrinks:
  assumes "\<And>d p d'. remove d p = Inr d' \<Longrightarrow> shrinks d' d \<and> map_of (nodes d') p = None"
    and "remove_if_exists remove job field d = Inr d'"
  shows "shrinks d' d \<and> (\<forall>p. map_of job field = Some p \<longrightarrow> map_of (nodes d') p = None)"
  using assms
  by (auto simp: remove_if_exists_def os_path_exists_def shrinks_refl split: option.splits if_splits)

lemma remove_if_exists_succeeds:
  assumes "\<And>p. map_of job field = Some p \<Longrightarrow> os_path_exists d p \<Longrightarrow> \<exists>d'. remove d p = Inr d'"
  shows "\<exists>d'. remove_if_exists remove job field d = Inr d'"
  using assms by (auto simp: remove_if_exists_def split: option.splits)

text \<open>The three deletions for one job.\<close>

lemma remove_artifacts_shrinks: "remove_artifacts job d = (r, d') \<Longrightarrow> shrinks d' d"
proof -
  assume ra: "remove_artifacts job d = (r, d')"
  show ?thesis
  proof (cases "remove_if_exists os_remove job ''file_path'' d")
    case (Inl e)
    with ra show ?thesis by (simp add: remove_artifacts_def shrinks_refl)
  next
    case (Inr d1)
    from remove_if_exists_shrinks [OF os_remove_shrinks Inr]
    have s1: "shrinks d1 d" by simp
    show ?thesis
    proof (cases "remove_if_exists os_remove job ''code_path'' d1")
      case (Inl e)
      with ra Inr s1 show ?thesis by (simp add: remove_artifacts_def)
    next
      case Inr2: (Inr d2)
      from remove_if_exists_shrinks [OF os_remove_shrinks Inr2]
      have "shrinks d2 d1" by simp
      from this s1 have s2: "shrinks d2 d" by (rule shrinks_trans)
      show ?thesis
      proof (cases "remove_if_exists shutil_rmtree job ''result_path'' d2")
        case (Inl e)
        with ra Inr Inr2 s2 show ?thesis by (simp add: remove_artifacts_def)
      next
        case Inr3: (Inr d3)
        from remove_if_exists_shrinks [OF shutil_rmtree_shrinks Inr3]
        have "shrinks d3 d2" by simp
        from this s2 have "shrinks d3 d" by (rule shrinks_trans)
        with ra Inr Inr2 Inr3 show ?thesis by (simp add: remove_artifacts_def)
      qed
    qed
  qed
qed

lemma set_artifacts:
  "p \<in> set (artifacts job) \<longleftrightarrow>
     map_of job ''file_path'' = Some p \<or> map_of job ''code_path'' = Some p \<or>
     map_of job ''result_path'' = Some p"
  by (auto simp: artifacts_def List.map_filter_def)

lemma remove_artifacts_deletable:
  assumes del: "deletable d job"
  shows "\<exists>d'. remove_artifacts job d = (None, d') \<and>
              (\<forall>p \<in> set (artifacts job). map_of (nodes d') p = None)"
proof -
  have "\<exists>d1. remove_if_exists os_remove job ''file_path'' d = Inr d1"
  proof (rule remove_if_exists_succeeds)
    fix p assume "map_of job ''file_path'' = Some p" "os_path_exists d p"
    with del show "\<exists>d'. os_remove d p = Inr d'"
      by (simp add: deletable_def os_remove_removable)
  qed
  then obtain d1 where 1: "remove_if_exists os_remove job ''file_path'' d = Inr d1" ..
  from remove_if_exists_shrinks [OF os_remove_shrinks 1]
  have s1: "shrinks d1 d" and g1: "\<And>p. map_of job ''file_path'' = Some p \<Longrightarrow> map_of (nodes d1) p = None"
    by simp_all
  from s1 del have del1: "deletable d1 job" by (rule deletable_shrinks)
  have "\<exists>d2. remove_if_exists os_remove job ''code_path'' d1 = Inr d2"
  proof (rule remove_if_exists_succeeds)
    fix p assume "map_of job ''code_path'' = Some p" "os_path_exists d1 p"
    with del1 show "\<exists>d'. os_remove d1 p = Inr d'"
      by (simp add: deletable_def os_remove_removable)
  qed
  then obtain d2 where 2: "remove_if_exists os_remove job ''code_path'' d1 = Inr d2" ..
  from remove_if_exists_shrinks [OF os_remove_shrinks 2]
  have s2: "shrinks d2 d1" and g2: "\<And>p. map_of job ''code_path'' = Some p \<Longrightarrow> map_of (nodes d2) p = None"
    by simp_all
  from s2 del1 have del2: "deletable d2 job" by (rule deletable_shrinks)
  have "\<exists>d3. remove_if_exists shutil_rmtree job ''result_path'' d2 = Inr d3"
  proof (rule remove_if_exists_succeeds)
    fix p assume "map_of job ''result_path'' = Some p" "os_path_exists d2 p"
    with del2 show "\<exists>d'. shutil_rmtree d2 p = Inr d'"
      by (simp add: deletable_def shutil_rmtree_removable)
  qed
  then obtain d3 where 3: "remove_if_exists shutil_rmtree job ''result_path'' d2 = Inr d3" ..
  from remove_if_exists_shrinks [OF shutil_rmtree_shrinks 3]
  have s3: "shrinks d3 d2" and g3: "\<And>p. map_of job ''result_path'' = Some p \<Longrightarrow> map_of (nodes d3) p = None"
    by simp_all
  have res: "remove_artifacts job d = (None, d3)"
    using 1 2 3 by (simp add: remove_artifacts_def)
  have "\<forall>p \<in> set (artifacts job). map_of (nodes d3) p = None"
  proof
    fix p assume "p \<in> set (artifacts job)"
    then consider "map_of job ''file_path'' = Some p" | "map_of job ''code_path'' = Some p"
      | "map_of job ''result_path'' = Some p"
      by (auto simp: set_artifacts)
    then show "map_of (nodes d3) p = None"
    proof cases
      case 1
      then have "map_of (nodes d1) p = None" by (rule g1)
      with s2 have "map_of (nodes d2) p = None" by (rule shrinks_gone)
      with s3 show ?thesis by (rule shrinks_gone)
    next
      case 2
      then have "map_of (nodes d2) p = None" by (rule g2)
      with s3 show ?thesis by (rule shrinks_gone)
    next
      case 3
      then show ?thesis by (rule g3)
    qed
  qed
  with res show ?thesis by blast
qed

text \<open>The body of the second loop, for one id.\<close>

lemma sweep_job_disk: "shrinks (disk (sweep_job i st)) (disk st)"
proof (cases "map_of (job_status st) i")
  case None
  then show ?thesis by (simp add: sweep_job_def shrinks_refl)
next
  case (Some job)
  obtain r d' where ra: "remove_artifacts job (disk st) = (r, d')"
    by (cases "remove_artifacts job (disk st)")
  then have "shrinks d' (disk st)" by (rule remove_artifacts_shrinks)
  with Some ra show ?thesis by (cases r) (simp_all add: sweep_job_def)
qed

lemma sweep_job_registry:
  "job_status (sweep_job i st) = job_status st \<or>
   job_status (sweep_job i st) = AList.delete i (job_status st)"
proof (cases "map_of (job_status st) i")
  case None
  then show ?thesis by (simp add: sweep_job_def)
next
  case (Some job)
  then have "i \<in> fst ` set (job_status st)" by (simp add: registered_iff)
  then show ?thesis
    using Some
    by (cases "remove_artifacts job (disk st)"; cases "fst (remove_artifacts job (disk st))")
       (auto simp: sweep_job_def delete_job_def)
qed

lemma sweep_job_other: "j \<noteq> i \<Longrightarrow> map_of (job_status (sweep_job i st)) j = map_of (job_status st) j"
  using sweep_job_registry [of i st] by (auto simp: delete_conv')

lemma sweep_job_none_or_same:
  "map_of (job_status (sweep_job i st)) j = None \<or>
   map_of (job_status (sweep_job i st)) j = map_of (job_status st) j"
  using sweep_job_registry [of i st] by (auto simp: delete_conv')

lemma sweep_job_deletes:
  assumes "map_of (job_status st) i = Some job" and "deletable (disk st) job"
  shows "map_of (job_status (sweep_job i st)) i = None \<and>
         (\<forall>p \<in> set (artifacts job). map_of (nodes (disk (sweep_job i st))) p = None)"
proof -
  from remove_artifacts_deletable [OF assms(2)]
  obtain d' where ra: "remove_artifacts job (disk st) = (None, d')"
    and gone: "\<forall>p \<in> set (artifacts job). map_of (nodes d') p = None"
    by blast
  from assms(1) have "i \<in> fst ` set (job_status st)" by (simp add: registered_iff)
  with assms(1) ra gone show ?thesis
    by (simp add: sweep_job_def delete_job_def delete_conv')
qed

text \<open>The second loop.\<close>

lemma fold_sweep_disk: "shrinks (disk (fold sweep_job ids st)) (disk st)"
proof (induction ids arbitrary: st)
  case Nil
  show ?case by (simp add: shrinks_refl)
next
  case (Cons i ids)
  have "shrinks (disk (fold sweep_job ids (sweep_job i st))) (disk (sweep_job i st))"
    by (rule Cons.IH)
  then have "shrinks (disk (fold sweep_job ids (sweep_job i st))) (disk st)"
    using sweep_job_disk by (rule shrinks_trans)
  then show ?case by simp
qed

lemma fold_sweep_none_or_same:
  "map_of (job_status (fold sweep_job ids st)) j = None \<or>
   map_of (job_status (fold sweep_job ids st)) j = map_of (job_status st) j"
proof (induction ids arbitrary: st)
  case Nil
  show ?case by simp
next
  case (Cons i ids)
  from Cons.IH [of "sweep_job i st"] sweep_job_none_or_same [of i st j]
  show ?case by auto
qed

lemma fold_sweep_other:
  "j \<notin> set ids \<Longrightarrow> map_of (job_status (fold sweep_job ids st)) j = map_of (job_status st) j"
  by (induction ids arbitrary: st) (simp_all add: sweep_job_other)

lemma fold_sweep_deletes:
  assumes "j \<in> set ids" and "map_of (job_status st) j = Some job" and "deletable (disk st) job"
  shows "map_of (job_status (fold sweep_job ids st)) j = None \<and>
         (\<forall>p \<in> set (artifacts job). map_of (nodes (disk (fold sweep_job ids st))) p = None)"
  using assms
proof (induction ids arbitrary: st)
  case Nil
  then show ?case by simp
next
  case (Cons i ids)
  let ?st1 = "sweep_job i st"
  show ?case
  proof (cases "j = i")
    case True
    from sweep_job_deletes [OF Cons.prems(2) [unfolded True] Cons.prems(3)]
    have r1: "map_of (job_status ?st1) j = None"
      and g1: "\<forall>p \<in> set (artifacts job). map_of (nodes (disk ?st1)) p = None"
      using True by simp_all
    from fold_sweep_none_or_same [of ids ?st1 j] r1
    have "map_of (job_status (fold sweep_job ids ?st1)) j = None" by auto
    moreover have "\<forall>p \<in> set (artifacts job). map_of (nodes (disk (fold sweep_job ids ?st1))) p = None"
      using g1 shrinks_gone [OF fold_sweep_disk [of ids ?st1]] by blast
    ultimately show ?thesis by simp
  next
    case False
    with Cons.prems(1) have "j \<in> set ids" by simp
    moreover from False Cons.prems(2) have "map_of (job_status ?st1) j = Some job"
      by (simp add: sweep_job_other)
    moreover from sweep_job_disk Cons.prems(3) have "deletable (disk ?st1) job"
      by (rule deletable_shrinks)
    ultimately show ?thesis using Cons.IH [of ?st1] by simp
  qed
qed

text \<open>The first loop: when no time stamp raises, it returns the expired ids.\<close>

lemma jobs_to_delete_ids:
  "jobs_to_delete fromisoformat cutoff_time reg = Inr ids \<Longrightarrow>
   ids = map fst (filter (\<lambda>(j, job). is_expired fromisoformat cutoff_time job) reg)"
proof (induction reg arbitrary: ids)
  case Nil
  then show ?case by simp
next
  case (Cons entry reg)
  obtain j job where entry: "entry = (j, job)" by (cases entry)
  from Cons.prems entry obtain ts t ids' where
    ts: "map_of job ''timestamp'' = Some ts" and t: "fromisoformat ts = Inr t"
    and rest: "jobs_to_delete fromisoformat cutoff_time reg = Inr ids'"
    and ids: "ids = (if t < cutoff_time then j # ids' else ids')"
    by (auto split: option.splits sum.splits)
  from Cons.IH [OF rest] ts t ids entry show ?case
    by (simp add: is_expired_def)
qed

lemma jobs_to_delete_member:
  assumes "jobs_to_delete fromisoformat cutoff_time reg = Inr ids"
    and "distinct (map fst reg)" and "map_of reg j = Some job"
  shows "j \<in> set ids \<longleftrightarrow> is_expired fromisoformat cutoff_time job"
proof -
  from assms(2,3) have in_reg: "\<And>job'. (j, job') \<in> set reg \<longleftrightarrow> job' = job"
    by (metis map_of_is_SomeI map_of_SomeD option.inject)
  from jobs_to_delete_ids [OF assms(1)]
  have "j \<in> set ids \<longleftrightarrow> (\<exists>job'. (j, job') \<in> set reg \<and> is_expired fromisoformat cutoff_time job')"
    by (auto simp: image_iff)
  with in_reg show ?thesis by simp
qed

text \<open>What a cycle leaves alone on disk: every path outside the artifacts it deletes.\<close>

lemma os_remove_frame:
  "os_remove d a = Inr d' \<Longrightarrow> \<not> within a p \<Longrightarrow> map_of (nodes d') p = map_of (nodes d) p"
  by (auto simp: os_remove_def within_def delete_conv' split: option.splits node.splits if_splits)

lemma shutil_rmtree_frame:
  "shutil_rmtree d a = Inr d' \<Longrightarrow> \<not> within a p \<Longrightarrow> map_of (nodes d') p = map_of (nodes d) p"
  by (auto simp: shutil_rmtree_def map_of_filter_key split: option.splits node.splits if_splits)

lemma remove_if_exists_frame:
  assumes "\<And>d a d'. remove d a = Inr d' \<Longrightarrow> \<not> within a p \<Longrightarrow> map_of (nodes d') p = map_of (nodes d) p"
    and "remove_if_exists remove job field d = Inr d'"
    and "\<And>a. map_of job field = Some a \<Longrightarrow> \<not> within a p"
  shows "map_of (nodes d') p = map_of (nodes d) p"
proof (cases "map_of job field")
  case None
  with assms(2) show ?thesis by (simp add: remove_if_exists_def)
next
  case (Some a)
  show ?thesis
  proof (cases "os_path_exists d a")
    case False
    with Some assms(2) show ?thesis by (simp add: remove_if_exists_def)
  next
    case True
    with Some assms(2) have "remove d a = Inr d'" by (simp add: remove_if_exists_def)
    moreover from Some have "\<not> within a p" by (rule assms(3))
    ultimately show ?thesis by (rule assms(1))
  qed
qed

lemma remove_artifacts_frame:
  assumes ra: "remove_artifacts job d = (r, d')"
    and out: "\<forall>a \<in> set (artifacts job). \<not> within a p"
  shows "map_of (nodes d') p = map_of (nodes d) p"
proof -
  from out have f: "\<And>a. map_of job ''file_path'' = Some a \<Longrightarrow> \<not> within a p"
    and c: "\<And>a. map_of job ''code_path'' = Some a \<Longrightarrow> \<not> within a p"
    and t: "\<And>a. map_of job ''result_path'' = Some a \<Longrightarrow> \<not> within a p"
    by (simp_all add: set_artifacts)
  show ?thesis
  proof (cases "remove_if_exists os_remove job ''file_path'' d")
    case (Inl e)
    with ra show ?thesis by (simp add: remove_artifacts_def)
  next
    case (Inr d1)
    have 1: "map_of (nodes d1) p = map_of (nodes d) p"
      using os_remove_frame Inr f by (rule remove_if_exists_frame)
    show ?thesis
    proof (cases "remove_if_exists os_remove job ''code_path'' d1")
      case (Inl e)
      with ra Inr 1 show ?thesis by (simp add: remove_artifacts_def)
    next
      case Inr2: (Inr d2)
      have "map_of (nodes d2) p = map_of (nodes d1) p"
        using os_remove_frame Inr2 c by (rule remove_if_exists_frame)
      with 1 have 2: "map_of (nodes d2) p = map_of (nodes d) p" by simp
      show ?thesis
      proof (cases "remove_if_exists shutil_rmtree job ''result_path'' d2")
        case (Inl e)
        with ra Inr Inr2 2 show ?thesis by (simp add: remove_artifacts_def)
      next
        case Inr3: (Inr d3)
        have "map_of (nodes d3) p = map_of (nodes d2) p"
          using shutil_rmtree_frame Inr3 t by (rule remove_if_exists_frame)
        with 2 ra Inr Inr2 Inr3 show ?thesis by (simp add: remove_artifacts_def)
      qed
    qed
  qed
qed

lemma sweep_job_frame:
  assumes "\<And>job. map_of (job_status st) i = Some job \<Longrightarrow> \<forall>a \<in> set (artifacts job). \<not> within a p"
  shows "map_of (nodes (disk (sweep_job i st))) p = map_of (nodes (disk st)) p"
proof (cases "map_of (job_status st) i")
  case None
  then show ?thesis by (simp add: sweep_job_def)
next
  case (Some job)
  obtain r d' where ra: "remove_artifacts job (disk st) = (r, d')"
    by (cases "remove_artifacts job (disk st)")
  from Some have "\<forall>a \<in> set (artifacts job). \<not> within a p" by (rule assms)
  with ra have "map_of (nodes d') p = map_of (nodes (disk st)) p"
    by (rule remove_artifacts_frame)
  with Some ra show ?thesis by (cases r) (simp_all add: sweep_job_def)
qed

lemma fold_sweep_frame:
  assumes "\<And>i job. i \<in> set ids \<Longrightarrow> map_of (job_status st) i = Some job \<Longrightarrow>
             \<forall>a \<in> set (artifacts job). \<not> within a p"
  shows "map_of (nodes (disk (fold sweep_job ids st))) p = map_of (nodes (disk st)) p"
  using assms
proof (induction ids arbitrary: st)
  case Nil
  show ?case by simp
next
  case (Cons i ids)
  let ?st1 = "sweep_job i st"
  have 1: "map_of (nodes (disk ?st1)) p = map_of (nodes (disk st)) p"
  proof (rule sweep_job_frame)
    fix job assume "map_of (job_status st) i = Some job"
    then show "\<forall>a \<in> set (artifacts job). \<not> within a p"
      using Cons.prems [of i job] by simp
  qed
  have "map_of (nodes (disk (fold sweep_job ids ?st1))) p = map_of (nodes (disk ?st1)) p"
  proof (rule Cons.IH)
    fix i' job
    assume i': "i' \<in> set ids" and j1: "map_of (job_status ?st1) i' = Some job"
    from sweep_job_none_or_same [of i st i'] j1
    have "map_of (job_status st) i' = Some job" by auto
    with i' show "\<forall>a \<in> set (artifacts job). \<not> within a p"
      using Cons.prems [of i' job] by simp
  qed
  with 1 show ?case by simp
qed

lemma cleanup_old_jobs_cycle_frame:
  assumes "distinct (map fst (job_status st))"
    and "\<And>i job. map_of (job_status st) i = Some job \<Longrightarrow>
           is_expired fromisoformat (now - one_day) job \<Longrightarrow>
           \<forall>a \<in> set (artifacts job). \<not> within a p"
  shows "map_of (nodes (disk (cleanup_old_jobs_cycle fromisoformat now st))) p
           = map_of (nodes (disk st)) p"
proof (cases "jobs_to_delete fromisoformat (now - one_day) (job_status st)")
  case (Inl e)
  then show ?thesis by (simp add: cleanup_old_jobs_cycle_def)
next
  case (Inr ids)
  have "map_of (nodes (disk (fold sweep_job ids st))) p = map_of (nodes (disk st)) p"
  proof (rule fold_sweep_frame)
    fix i job
    assume "i \<in> set ids" and job: "map_of (job_status st) i = Some job"
    with jobs_to_delete_member [OF Inr assms(1) job]
    have "is_expired fromisoformat (now - one_day) job" by simp
    with job show "\<forall>a \<in> set (artifacts job). \<not> within a p" by (rule assms(2))
  qed
  with Inr show ?thesis by (simp add: cleanup_old_jobs_cycle_def)
qed

lemma jobs_to_delete_readable:
  assumes "\<forall>(j, job) \<in> set reg. \<exists>ts t. map_of job ''timestamp'' = Some ts \<and> fromisoformat ts = Inr t"
  shows "\<exists>ids. jobs_to_delete fromisoformat cutoff_time reg = Inr ids"
  using assms
proof (induction reg)
  case Nil
  show ?case by simp
next
  case (Cons entry reg)
  obtain j job where entry: "entry = (j, job)" by (cases entry)
  from Cons.prems entry obtain ts t where "map_of job ''timestamp'' = Some ts" "fromisoformat ts = Inr t"
    by auto
  moreover from Cons.prems have "\<exists>ids. jobs_to_delete fromisoformat cutoff_time reg = Inr ids"
    by (intro Cons.IH) simp
  ultimately show ?case using entry by auto
qed

text \<open>
  Claim C8, as the program has it. Take one cycle at the time \<open>now\<close> in which the first
  loop ends without an exception (every time stamp of the registry is present and
  readable), on a registry with distinct ids, and any registered job. If the job is
  expired and the host lets its artifacts be deleted, then after the cycle the job is
  not in the registry and none of its stored paths exists; this holds whatever happens
  to the other expired jobs of the cycle, so a failure for one job does not keep another
  from being deleted. If the job is not expired, its record is in the registry as it
  was. In every case the record is either gone or as it was. On disk, every path that
  is neither an artifact of an expired job nor beneath one is as it was; so are the
  artifacts of the jobs that are not expired, when they lie apart from those of the
  expired jobs.
\<close>

theorem sweeper_cycle:
  assumes "jobs_to_delete fromisoformat (now - one_day) (job_status st) = Inr ids"
    and "distinct (map fst (job_status st))"
    and "map_of (job_status st) j = Some job"
  shows "(is_expired fromisoformat (now - one_day) job \<and> deletable (disk st) job \<longrightarrow>
            map_of (job_status (cleanup_old_jobs_cycle fromisoformat now st)) j = None \<and>
            (\<forall>p \<in> set (artifacts job).
               \<not> os_path_exists (disk (cleanup_old_jobs_cycle fromisoformat now st)) p)) \<and>
         (\<not> is_expired fromisoformat (now - one_day) job \<longrightarrow>
            map_of (job_status (cleanup_old_jobs_cycle fromisoformat now st)) j = Some job) \<and>
         (map_of (job_status (cleanup_old_jobs_cycle fromisoformat now st)) j = None \<or>
          map_of (job_status (cleanup_old_jobs_cycle fromisoformat now st)) j = Some job) \<and>
         (\<forall>p. (\<forall>i job'. map_of (job_status st) i = Some job' \<and>
                       is_expired fromisoformat (now - one_day) job' \<longrightarrow>
                       (\<forall>a \<in> set (artifacts job'). \<not> within a p)) \<longrightarrow>
              map_of (nodes (disk (cleanup_old_jobs_cycle fromisoformat now st))) p
                = map_of (nodes (disk st)) p)"
proof -
  have frame: "\<forall>p. (\<forall>i job'. map_of (job_status st) i = Some job' \<and>
                       is_expired fromisoformat (now - one_day) job' \<longrightarrow>
                       (\<forall>a \<in> set (artifacts job'). \<not> within a p)) \<longrightarrow>
              map_of (nodes (disk (cleanup_old_jobs_cycle fromisoformat now st))) p
                = map_of (nodes (disk st)) p"
  proof (intro allI impI)
    fix p
    assume apart: "\<forall>i job'. map_of (job_status st) i = Some job' \<and>
                       is_expired fromisoformat (now - one_day) job' \<longrightarrow>
                       (\<forall>a \<in> set (artifacts job'). \<not> within a p)"
    show "map_of (nodes (disk (cleanup_old_jobs_cycle fromisoformat now st))) p
            = map_of (nodes (disk st)) p"
      using assms(2)
    proof (rule cleanup_old_jobs_cycle_frame)
      fix i job'
      assume "map_of (job_status st) i = Some job'" "is_expired fromisoformat (now - one_day) job'"
      with apart show "\<forall>a \<in> set (artifacts job'). \<not> within a p" by blast
    qed
  qed
  have cycle: "cleanup_old_jobs_cycle fromisoformat now st = fold sweep_job ids st"
    using assms(1) by (simp add: cleanup_old_jobs_cycle_def)
  have member: "j \<in> set ids \<longleftrightarrow> is_expired fromisoformat (now - one_day) job"
    using assms by (rule jobs_to_delete_member)
  have "map_of (job_status (fold sweep_job ids st)) j = None \<and>
        (\<forall>p \<in> set (artifacts job). \<not> os_path_exists (disk (fold sweep_job ids st)) p)"
    if "is_expired fromisoformat (now - one_day) job" and "deletable (disk st) job"
  proof -
    from that(1) member have "j \<in> set ids" by simp
    from fold_sweep_deletes [OF this assms(3) that(2)] show ?thesis
      by (simp add: os_path_exists_def)
  qed
  moreover have "map_of (job_status (fold sweep_job ids st)) j = Some job"
    if "\<not> is_expired fromisoformat (now - one_day) job"
  proof -
    from that member have "j \<notin> set ids" by simp
    then show ?thesis using assms(3) by (simp add: fold_sweep_other)
  qed
  moreover have "map_of (job_status (fold sweep_job ids st)) j = None \<or>
                 map_of (job_status (fold sweep_job ids st)) j = Some job"
    using fold_sweep_none_or_same [of ids st j] assms(3) by simp
  ultimately have "(is_expired fromisoformat (now - one_day) job \<and> deletable (disk st) job \<longrightarrow>
            map_of (job_status (fold sweep_job ids st)) j = None \<and>
            (\<forall>p \<in> set (artifacts job). \<not> os_path_exists (disk (fold sweep_job ids st)) p)) \<and>
         (\<not> is_expired fromisoformat (now - one_day) job \<longrightarrow>
            map_of (job_status (fold sweep_job ids st)) j = Some job) \<and>
         (map_of (job_status (fold sweep_job ids st)) j = None \<or>
          map_of (job_status (fold sweep_job ids st)) j = Some job)"
    by blast
  with frame show ?thesis
    unfolding cycle by simp
qed

theorem sweeper_cycle_witness:
  "jobs_to_delete example_fromisoformat (example_now - one_day) (job_status example_state)
     = Inr [''a'', ''b''] \<and>
   distinct (map fst (job_status example_state)) \<and>
   map_of (job_status example_state) ''b'' = Some (example_job ''b'' ''failed'' ''2024-01-01T00:00:00'') \<and>
   map_of (job_status example_state) ''c'' = Some (example_job ''c'' ''completed'' ''2024-01-09T00:00:00'') \<and>
   is_expired example_fromisoformat (example_now - one_day)
     (example_job ''b'' ''failed'' ''2024-01-01T00:00:00'') \<and>
   deletable (disk example_state) (example_job ''b'' ''failed'' ''2024-01-01T00:00:00'') \<and>
   \<not> is_expired example_fromisoformat (example_now - one_day)
     (example_job ''c'' ''completed'' ''2024-01-09T00:00:00'') \<and>
   map_of (job_status (cleanup_old_jobs_cycle example_fromisoformat example_now example_state)) ''b''
     = None \<and>
   \<not> os_path_exists (disk (cleanup_old_jobs_cycle example_fromisoformat example_now example_state))
       ''/tmp/file_processor/results/b'' \<and>
   map_of (job_status (cleanup_old_jobs_cycle example_fromisoformat example_now example_state)) ''c''
     = Some (example_job ''c'' ''completed'' ''2024-01-09T00:00:00'') \<and>
   map_of (nodes (disk (cleanup_old_jobs_cycle example_fromisoformat example_now example_state)))
       ''/tmp/file_processor/results/c/out.json'' = Some (File ''{}'')"
proof -
  have apart: "\<forall>i job'. map_of (job_status example_state) i = Some job' \<and>
         is_expired example_fromisoformat (example_now - one_day) job' \<longrightarrow>
         (\<forall>a \<in> set (artifacts job'). \<not> within a ''/tmp/file_processor/results/c/out.json'')"
  proof (intro allI impI, elim conjE)
    fix i job'
    assume m: "map_of (job_status example_state) i = Some job'"
      and e: "is_expired example_fromisoformat (example_now - one_day) job'"
    from m have "(i, job') \<in> set (job_status example_state)" by (rule map_of_SomeD)
    then consider "job' = example_job ''a'' ''completed'' ''2024-01-01T00:00:00''"
      | "job' = example_job ''b'' ''failed'' ''2024-01-01T00:00:00''"
      | "job' = example_job ''c'' ''completed'' ''2024-01-09T00:00:00''"
      by (auto simp: example_state_def)
    then show "\<forall>a \<in> set (artifacts job'). \<not> within a ''/tmp/file_processor/results/c/out.json''"
    proof cases
      case 1
      have "\<forall>a \<in> set (artifacts (example_job ''a'' ''completed'' ''2024-01-01T00:00:00'')).
              \<not> within a ''/tmp/file_processor/results/c/out.json''"
        by code_simp
      with 1 show ?thesis by simp
    next
      case 2
      have "\<forall>a \<in> set (artifacts (example_job ''b'' ''failed'' ''2024-01-01T00:00:00'')).
              \<not> within a ''/tmp/file_processor/results/c/out.json''"
        by code_simp
      with 2 show ?thesis by simp
    next
      case 3
      have "\<not> is_expired example_fromisoformat (example_now - one_day)
              (example_job ''c'' ''completed'' ''2024-01-09T00:00:00'')"
        by code_simp
      with 3 e show ?thesis by simp
    qed
  qed
  have before: "map_of (nodes (disk example_state)) ''/tmp/file_processor/results/c/out.json''
      = Some (File ''{}'')"
    by code_simp
  have ids: "jobs_to_delete example_fromisoformat (example_now - one_day) (job_status example_state)
     = Inr [''a'', ''b'']"
    by code_simp
  have dist: "distinct (map fst (job_status example_state))"
    by code_simp
  have b: "map_of (job_status example_state) ''b'' = Some (example_job ''b'' ''failed'' ''2024-01-01T00:00:00'')"
    by code_simp
  have c: "map_of (job_status example_state) ''c'' = Some (example_job ''c'' ''completed'' ''2024-01-09T00:00:00'')"
    by code_simp
  have old: "is_expired example_fromisoformat (example_now - one_day)
     (example_job ''b'' ''failed'' ''2024-01-01T00:00:00'')"
    by code_simp
  have del: "deletable (disk example_state) (example_job ''b'' ''failed'' ''2024-01-01T00:00:00'')"
    by code_simp
  have young: "\<not> is_expired example_fromisoformat (example_now - one_day)
     (example_job ''c'' ''completed'' ''2024-01-09T00:00:00'')"
    by code_simp
  have art: "''/tmp/file_processor/results/b'' \<in> set (artifacts (example_job ''b'' ''failed'' ''2024-01-01T00:00:00''))"
    by code_simp
  from sweeper_cycle [OF ids dist b] old del art
  have "map_of (job_status (cleanup_old_jobs_cycle example_fromisoformat example_now example_state)) ''b''
     = None"
    and "\<not> os_path_exists (disk (cleanup_old_jobs_cycle example_fromisoformat example_now example_state))
       ''/tmp/file_processor/results/b''"
    by blast+
  moreover from sweeper_cycle [OF ids dist c] young
  have "map_of (job_status (cleanup_old_jobs_cycle example_fromisoformat example_now example_state)) ''c''
     = Some (example_job ''c'' ''completed'' ''2024-01-09T00:00:00'')"
    by blast
  moreover from sweeper_cycle [OF ids dist c] apart before
  have "map_of (nodes (disk (cleanup_old_jobs_cycle example_fromisoformat example_now example_state)))
       ''/tmp/file_processor/results/c/out.json'' = Some (File ''{}'')"
    by simp
  ultimately show ?thesis
    using ids dist b c old del young by blast
qed

text \<open>
  The claim as stated fails: the job \<open>a\<close> of the example is expired, the host refuses to
  delete its input file, and after the cycle \<open>a\<close> is still in the registry with its
  artifacts on disk, while the expired job \<open>b\<close> that follows it is gone.
\<close>

theorem sweeper_keeps_undeletable_job:
  "is_expired example_fromisoformat (example_now - one_day)
     (example_job ''a'' ''completed'' ''2024-01-01T00:00:00'') \<and>
   job_status (cleanup_old_jobs_cycle example_fromisoformat example_now example_state)
     = [(''a'', example_job ''a'' ''completed'' ''2024-01-01T00:00:00''),
        (''c'', example_job ''c'' ''completed'' ''2024-01-09T00:00:00'')] \<and>
   nodes (disk (cleanup_old_jobs_cycle example_fromisoformat example_now example_state))
     = example_files ''a'' @ example_files ''c''"
  by code_simp

section \<open>Properties of the job lifecycle\<close>

text \<open>What each operation does to the record of a job that it does not concern.\<close>

lemma submit_code_other:
  "j \<noteq> job_id \<Longrightarrow>
   map_of (job_status (fst (snd (submit_code st job_id code_submission background_tasks)))) j
     = map_of (job_status st) j"
  by (simp add: submit_code_def Let_def map_of_map_entry split: sum.splits option.splits)

lemma post_submit_code_other:
  "j \<noteq> job_id \<Longrightarrow>
   map_of (job_status (fst (snd (post_submit_code st job_id body background_tasks)))) j
     = map_of (job_status st) j"
  by (simp add: post_submit_code_def submit_code_other split: sum.splits)

lemma execute_windows_other:
  "j \<noteq> job_id \<Longrightarrow>
   map_of (fst (snd (execute_windows job_id docker_cmd max_execution_time oc reg))) j = map_of reg j"
  by (simp add: execute_windows_def Let_def update_job_status_other split: outcome.splits sum.splits)

lemma execute_unix_other:
  "j \<noteq> job_id \<Longrightarrow>
   map_of (fst (snd (execute_unix job_id docker_cmd max_execution_time oc reg))) j = map_of reg j"
  by (simp add: execute_unix_def Let_def update_job_status_other split: outcome.splits sum.splits)

lemma execute_code_in_sandbox_other:
  assumes "j \<noteq> job_id"
  shows "map_of (fst (execute_code_in_sandbox format_exc os_name job_id file_path code_path
                        result_path max_execution_time oc reg)) j = map_of reg j"
proof -
  let ?cmd = "docker_command os_name (lower (splitext_ext os_name file_path))
                (docker_path os_name file_path) (docker_path os_name code_path)
                (docker_path os_name result_path) max_execution_time"
  let ?reg2 = "update_job_status job_id ''running'' [(''docker_cmd'', str_join '' '' ?cmd)]
                 (update_job_status job_id ''running'' [] reg)"
  let ?r = "if os_name = ''nt'' then execute_windows job_id ?cmd max_execution_time oc ?reg2
            else execute_unix job_id ?cmd max_execution_time oc ?reg2"
  have 2: "map_of ?reg2 j = map_of reg j"
    using assms by (simp add: update_job_status_other)
  have 3: "map_of (fst (snd ?r)) j = map_of reg j"
  proof (cases "os_name = ''nt''")
    case True
    have "map_of (fst (snd (execute_windows job_id ?cmd max_execution_time oc ?reg2))) j = map_of ?reg2 j"
      using assms by (rule execute_windows_other)
    with True 2 show ?thesis by simp
  next
    case False
    have "map_of (fst (snd (execute_unix job_id ?cmd max_execution_time oc ?reg2))) j = map_of ?reg2 j"
      using assms by (rule execute_unix_other)
    with False 2 show ?thesis by simp
  qed
  obtain e reg3 ps where r: "?r = (e, reg3, ps)" by (cases ?r)
  with 3 have "map_of reg3 j = map_of reg j" by simp
  then show ?thesis
    using assms r by (cases e) (simp_all add: execute_code_in_sandbox_def Let_def update_job_status_other)
qed

lemma cleanup_old_jobs_cycle_none_or_same:
  "map_of (job_status (cleanup_old_jobs_cycle fromisoformat now st)) j = None \<or>
   map_of (job_status (cleanup_old_jobs_cycle fromisoformat now st)) j = map_of (job_status st) j"
  by (cases "jobs_to_delete fromisoformat (now - one_day) (job_status st)")
     (simp_all add: cleanup_old_jobs_cycle_def fold_sweep_none_or_same)

lemma cleanup_job_none_or_same:
  "map_of (job_status (snd (cleanup_job job_id st))) j = None \<or>
   map_of (job_status (snd (cleanup_job job_id st))) j = map_of (job_status st) j"
proof (cases "map_of (job_status st) job_id")
  case None
  then have "job_id \<notin> fst ` set (job_status st)" by (simp add: registered_iff)
  then show ?thesis by (simp add: cleanup_job_def)
next
  case (Some job)
  then have in_reg: "job_id \<in> fst ` set (job_status st)" by (simp add: registered_iff)
  obtain r d where ra: "remove_artifacts job (disk st) = (r, d)"
    by (cases "remove_artifacts job (disk st)")
  show ?thesis
    using Some in_reg ra
    by (cases r) (auto simp: cleanup_job_def cleanup_job_files_def delete_job_def delete_conv')
qed

lemma apply_operation_none_or_same:
  assumes "\<not> concerns j operation"
  shows "map_of (job_status (apply_operation format_exc fromisoformat operation st)) j = None \<or>
         map_of (job_status (apply_operation format_exc fromisoformat operation st)) j
           = map_of (job_status st) j"
proof (cases operation)
  case (SubmitCode job_id body)
  with assms show ?thesis by (simp add: post_submit_code_other)
next
  case (RunExecutor os_name t oc)
  with assms show ?thesis by (simp add: execute_code_in_sandbox_other)
next
  case (SweeperCycle now)
  then show ?thesis by (simp add: cleanup_old_jobs_cycle_none_or_same)
next
  case (CleanupJob job_id)
  then show ?thesis by (simp add: cleanup_job_none_or_same)
qed

lemma fold_operations_none_or_same:
  assumes "\<forall>operation \<in> set operations. \<not> concerns j operation"
  shows "map_of (job_status (fold (apply_operation format_exc fromisoformat) operations st)) j = None \<or>
         map_of (job_status (fold (apply_operation format_exc fromisoformat) operations st)) j
           = map_of (job_status st) j"
  using assms
proof (induction operations arbitrary: st)
  case Nil
  show ?case by simp
next
  case (Cons operation operations)
  let ?st1 = "apply_operation format_exc fromisoformat operation st"
  from Cons.prems have "\<not> concerns j operation" by simp
  then have 1: "map_of (job_status ?st1) j = None \<or> map_of (job_status ?st1) j = map_of (job_status st) j"
    by (rule apply_operation_none_or_same)
  from Cons.prems have "\<forall>operation \<in> set operations. \<not> concerns j operation" by simp
  then have "map_of (job_status (fold (apply_operation format_exc fromisoformat) operations ?st1)) j = None \<or>
         map_of (job_status (fold (apply_operation format_exc fromisoformat) operations ?st1)) j
           = map_of (job_status ?st1) j"
    by (rule Cons.IH)
  with 1 show ?case by auto
qed

text \<open>
  Claim C2, as the program has it. Once a job has a terminal status, no sequence of
  operations that do not concern that job (code submissions and executor runs for other
  jobs, sweeper cycles, deletions of any job) changes it: afterwards the job is either
  deleted from the registry or has the status it had. A code submission for the job
  itself and an executor run for it are not covered: they do change a terminal status.
\<close>

theorem terminal_status_kept:
  assumes "status_of st j = Some s" and "terminal s"
    and "\<forall>operation \<in> set operations. \<not> concerns j operation"
  shows "status_of (fold (apply_operation format_exc fromisoformat) operations st) j = Some s \<or>
         map_of (job_status (fold (apply_operation format_exc fromisoformat) operations st)) j = None"
proof -
  from fold_operations_none_or_same [OF assms(3), of format_exc fromisoformat st]
  show ?thesis
  proof
    assume "map_of (job_status (fold (apply_operation format_exc fromisoformat) operations st)) j = None"
    then show ?thesis ..
  next
    assume "map_of (job_status (fold (apply_operation format_exc fromisoformat) operations st)) j
              = map_of (job_status st) j"
    with assms(1) have "status_of (fold (apply_operation format_exc fromisoformat) operations st) j = Some s"
      by (simp add: status_of_def job_field_def)
    then show ?thesis ..
  qed
qed

theorem terminal_status_kept_witness:
  "status_of example_state ''c'' = Some ''completed'' \<and> terminal ''completed'' \<and>
   \<not> list_ex (concerns ''c'')
       [SubmitCode ''b'' ''print(2)'',
        RunExecutor ''posix''
          \<lparr>task_job_id = ''b'', task_file_path = ''/tmp/file_processor/uploads/b_data.csv'',
           task_code_path = ''/tmp/file_processor/code/b_process.py'',
           task_result_path = ''/tmp/file_processor/results/b'', task_max_execution_time = 120\<rparr>
          (Exited 0 ''ok'' []),
        SweeperCycle example_now,
        CleanupJob ''a''] \<and>
   status_of
     (fold (apply_operation (\<lambda>e. ''Traceback'') example_fromisoformat)
        [SubmitCode ''b'' ''print(2)'',
         RunExecutor ''posix''
           \<lparr>task_job_id = ''b'', task_file_path = ''/tmp/file_processor/uploads/b_data.csv'',
            task_code_path = ''/tmp/file_processor/code/b_process.py'',
            task_result_path = ''/tmp/file_processor/results/b'', task_max_execution_time = 120\<rparr>
           (Exited 0 ''ok'' []),
         SweeperCycle example_now,
         CleanupJob ''a'']
        example_state) ''c'' = Some ''completed''"
proof -
  have s: "status_of example_state ''c'' = Some ''completed''"
    by code_simp
  have t: "terminal ''completed''"
    by (simp add: terminal_def)
  have ops: "\<forall>operation \<in> set
       [SubmitCode ''b'' ''print(2)'',
        RunExecutor ''posix''
          \<lparr>task_job_id = ''b'', task_file_path = ''/tmp/file_processor/uploads/b_data.csv'',
           task_code_path = ''/tmp/file_processor/code/b_process.py'',
           task_result_path = ''/tmp/file_processor/results/b'', task_max_execution_time = 120\<rparr>
          (Exited 0 ''ok'' []),
        SweeperCycle example_now,
        CleanupJob ''a'']. \<not> concerns ''c'' operation"
    by simp
  have there: "map_of (job_status
     (fold (apply_operation (\<lambda>e. ''Traceback'') example_fromisoformat)
        [SubmitCode ''b'' ''print(2)'',
         RunExecutor ''posix''
           \<lparr>task_job_id = ''b'', task_file_path = ''/tmp/file_processor/uploads/b_data.csv'',
            task_code_path = ''/tmp/file_processor/code/b_process.py'',
            task_result_path = ''/tmp/file_processor/results/b'', task_max_execution_time = 120\<rparr>
           (Exited 0 ''ok'' []),
         SweeperCycle example_now,
         CleanupJob ''a'']
        example_state)) ''c'' \<noteq> None"
    by code_simp
  have lx: "\<not> list_ex (concerns ''c'')
       [SubmitCode ''b'' ''print(2)'',
        RunExecutor ''posix''
          \<lparr>task_job_id = ''b'', task_file_path = ''/tmp/file_processor/uploads/b_data.csv'',
           task_code_path = ''/tmp/file_processor/code/b_process.py'',
           task_result_path = ''/tmp/file_processor/results/b'', task_max_execution_time = 120\<rparr>
          (Exited 0 ''ok'' []),
        SweeperCycle example_now,
        CleanupJob ''a'']"
    by simp
  from terminal_status_kept [OF s t ops, of "\<lambda>e. ''Traceback''" example_fromisoformat] there s t lx
  show ?thesis by blast
qed

text \<open>
  The claim as stated fails. The job \<open>a\<close> of the example is \<open>completed\<close>; a code submission
  for it is accepted and sets its status to \<open>processing\<close>, and the executor run that
  follows ends, on a timeout, with the status \<open>timeout\<close>.
\<close>

theorem terminal_status_changed:
  "status_of example_state ''a'' = Some ''completed'' \<and> terminal ''completed'' \<and>
   status_of
     (apply_operation (\<lambda>e. ''Traceback'') example_fromisoformat (SubmitCode ''a'' ''print(2)'')
        example_state) ''a'' = Some ''processing'' \<and>
   status_of
     (fold (apply_operation (\<lambda>e. ''Traceback'') example_fromisoformat)
        [SubmitCode ''a'' ''print(2)'',
         RunExecutor ''posix''
           \<lparr>task_job_id = ''a'', task_file_path = ''/tmp/file_processor/uploads/a_data.csv'',
            task_code_path = ''/tmp/file_processor/code/a_process.py'',
            task_result_path = ''/tmp/file_processor/results/a'', task_max_execution_time = 120\<rparr>
           (TimedOut None [] [])]
        example_state) ''a'' = Some ''timeout''"
  by code_simp

section \<open>Properties of result retrieval\<close>

lemma os_path_isfile_node:
  "os_path_isfile d p \<Longrightarrow> \<exists>text. map_of (nodes d) p = Some (File text)"
  by (auto simp: os_path_isfile_def split: option.splits node.splits)

lemma get_results_not_found:
  "map_of (job_status st) job_id = None \<Longrightarrow>
   get_results json_loads st job_id output_format = Inl (HTTPException 404 ''Job not found'')"
  by (simp add: get_results_def)

lemma get_results_not_ready:
  "map_of (job_status st) job_id = Some job \<Longrightarrow> map_of job ''status'' = Some status \<Longrightarrow>
   status \<noteq> ''completed'' \<Longrightarrow>
   get_results json_loads st job_id output_format
     = Inr (JSONResponse 400 [(''status'', status), (''message'', ''Results not available yet'')])"
  by (simp add: get_results_def)

text \<open>The reply for a completed job, by the files that the listing of its directory shows.\<close>

lemma get_results_completed:
  assumes "map_of (job_status st) job_id = Some job"
    and "map_of job ''status'' = Some ''completed''"
    and "map_of job ''result_path'' = Some result_path"
    and "os_listdir (disk st) result_path = Inr names"
    and "result_files = filter (\<lambda>f. os_path_isfile (disk st) (os_path_join result_path f)) names"
  shows "get_results json_loads st job_id output_format =
     (if result_files = [] then Inl (HTTPException 404 ''No results found'')
      else if output_format = ''csv'' \<and> filter (\<lambda>f. suffix ''.csv'' f) result_files \<noteq> [] then
        Inr (FileResponse (os_path_join result_path (hd (filter (\<lambda>f. suffix ''.csv'' f) result_files)))
               (Some ''text/csv'') (''result_'' @ job_id @ ''.csv''))
      else if output_format = ''excel'' \<and>
              filter (\<lambda>f. suffix ''.xlsx'' f \<or> suffix ''.xls'' f) result_files \<noteq> [] then
        Inr (FileResponse
               (os_path_join result_path
                  (hd (filter (\<lambda>f. suffix ''.xlsx'' f \<or> suffix ''.xls'' f) result_files)))
               (Some ''application/vnd.openxmlformats-officedocument.spreadsheetml.sheet'')
               (''result_'' @ job_id @ ''.xlsx''))
      else if filter (\<lambda>f. suffix ''.json'' f) result_files \<noteq> [] then
        (case map_of (nodes (disk st))
                (os_path_join result_path (hd (filter (\<lambda>f. suffix ''.json'' f) result_files))) of
           Some (File text) \<Rightarrow>
             (case json_loads text of Inl e \<Rightarrow> Inl e | Inr v \<Rightarrow> Inr (JSONContent v))
         | _ \<Rightarrow> Inl (OSError (''[Errno 2] No such file or directory: '' @
                  os_path_join result_path (hd (filter (\<lambda>f. suffix ''.json'' f) result_files)))))
      else
        Inr (FileResponse (os_path_join result_path (hd result_files)) None
               (''result_'' @ job_id @ ''_'' @ hd result_files)))"
  using assms(1-4) unfolding assms(5)
  by (simp add: get_results_def Let_def)

lemma first_json_is_file:
  assumes "result_files = filter (\<lambda>f. os_path_isfile d (os_path_join result_path f)) names"
    and "filter (\<lambda>f. suffix ''.json'' f) result_files \<noteq> []"
  shows "\<exists>text. map_of (nodes d)
                  (os_path_join result_path (hd (filter (\<lambda>f. suffix ''.json'' f) result_files)))
                = Some (File text)"
proof -
  from assms(2) have "hd (filter (\<lambda>f. suffix ''.json'' f) result_files)
      \<in> set (filter (\<lambda>f. suffix ''.json'' f) result_files)"
    by (rule hd_in_set)
  then have "hd (filter (\<lambda>f. suffix ''.json'' f) result_files) \<in> set result_files"
    by simp
  then have "os_path_isfile d
      (os_path_join result_path (hd (filter (\<lambda>f. suffix ''.json'' f) result_files)))"
    unfolding assms(1) by simp
  then show ?thesis by (rule os_path_isfile_node)
qed

text \<open>
  Claim C7, as the program has it. For an id that is not registered the reply is not
  found (404); for a job whose status is not \<open>completed\<close> it is not ready (400, with the
  status). For a completed job whose result directory lists the regular files
  \<open>result_files\<close>, and a format among \<open>json\<close>, \<open>csv\<close> and \<open>excel\<close>: when no file is listed
  the reply is not found (404, no results); when the format is \<open>csv\<close> or \<open>excel\<close> and a
  file of that kind is listed, the first such file is returned; otherwise, when a
  \<open>.json\<close> file is listed and the JSON parser reads the first one, the reply is the value
  read; otherwise, when no \<open>.json\<close> file is listed, the first listed file is returned.
\<close>

theorem get_results_selection:
  assumes "result_files = filter (\<lambda>f. os_path_isfile (disk st) (os_path_join result_path f)) names"
    and "csv_files = filter (\<lambda>f. suffix ''.csv'' f) result_files"
    and "excel_files = filter (\<lambda>f. suffix ''.xlsx'' f \<or> suffix ''.xls'' f) result_files"
    and "json_files = filter (\<lambda>f. suffix ''.json'' f) result_files"
  shows
   "(map_of (job_status st) job_id = None \<longrightarrow>
       get_results json_loads st job_id output_format = Inl (HTTPException 404 ''Job not found'')) \<and>
    (\<forall>job status. map_of (job_status st) job_id = Some job \<and> map_of job ''status'' = Some status \<and>
         status \<noteq> ''completed'' \<longrightarrow>
       get_results json_loads st job_id output_format
         = Inr (JSONResponse 400 [(''status'', status), (''message'', ''Results not available yet'')])) \<and>
    (\<forall>job. map_of (job_status st) job_id = Some job \<and> map_of job ''status'' = Some ''completed'' \<and>
         map_of job ''result_path'' = Some result_path \<and>
         os_listdir (disk st) result_path = Inr names \<and>
         output_format \<in> {''json'', ''csv'', ''excel''} \<longrightarrow>
       (if result_files = [] then
          get_results json_loads st job_id output_format = Inl (HTTPException 404 ''No results found'')
        else if output_format = ''csv'' \<and> csv_files \<noteq> [] then
          get_results json_loads st job_id output_format
            = Inr (FileResponse (os_path_join result_path (hd csv_files)) (Some ''text/csv'')
                     (''result_'' @ job_id @ ''.csv''))
        else if output_format = ''excel'' \<and> excel_files \<noteq> [] then
          get_results json_loads st job_id output_format
            = Inr (FileResponse (os_path_join result_path (hd excel_files))
                     (Some ''application/vnd.openxmlformats-officedocument.spreadsheetml.sheet'')
                     (''result_'' @ job_id @ ''.xlsx''))
        else if json_files \<noteq> [] then
          (\<exists>text. map_of (nodes (disk st)) (os_path_join result_path (hd json_files)) = Some (File text) \<and>
                  (\<forall>v. json_loads text = Inr v \<longrightarrow>
                       get_results json_loads st job_id output_format = Inr (JSONContent v)))
        else
          get_results json_loads st job_id output_format
            = Inr (FileResponse (os_path_join result_path (hd result_files)) None
                     (''result_'' @ job_id @ ''_'' @ hd result_files))))"
proof (intro conjI allI impI)
  assume "map_of (job_status st) job_id = None"
  then show "get_results json_loads st job_id output_format = Inl (HTTPException 404 ''Job not found'')"
    by (rule get_results_not_found)
next
  fix job status
  assume "map_of (job_status st) job_id = Some job \<and> map_of job ''status'' = Some status \<and>
          status \<noteq> ''completed''"
  then show "get_results json_loads st job_id output_format
         = Inr (JSONResponse 400 [(''status'', status), (''message'', ''Results not available yet'')])"
    by (simp add: get_results_not_ready)
next
  fix job
  assume a: "map_of (job_status st) job_id = Some job \<and> map_of job ''status'' = Some ''completed'' \<and>
         map_of job ''result_path'' = Some result_path \<and>
         os_listdir (disk st) result_path = Inr names \<and>
         output_format \<in> {''json'', ''csv'', ''excel''}"
  then have eq: "get_results json_loads st job_id output_format =
     (if result_files = [] then Inl (HTTPException 404 ''No results found'')
      else if output_format = ''csv'' \<and> csv_files \<noteq> [] then
        Inr (FileResponse (os_path_join result_path (hd csv_files))
               (Some ''text/csv'') (''result_'' @ job_id @ ''.csv''))
      else if output_format = ''excel'' \<and> excel_files \<noteq> [] then
        Inr (FileResponse (os_path_join result_path (hd excel_files))
               (Some ''application/vnd.openxmlformats-officedocument.spreadsheetml.sheet'')
               (''result_'' @ job_id @ ''.xlsx''))
      else if json_files \<noteq> [] then
        (case map_of (nodes (disk st)) (os_path_join result_path (hd json_files)) of
           Some (File text) \<Rightarrow>
             (case json_loads text of Inl e \<Rightarrow> Inl e | Inr v \<Rightarrow> Inr (JSONContent v))
         | _ \<Rightarrow> Inl (OSError (''[Errno 2] No such file or directory: '' @
                  os_path_join result_path (hd json_files))))
      else
        Inr (FileResponse (os_path_join result_path (hd result_files)) None
               (''result_'' @ job_id @ ''_'' @ hd result_files)))"
    unfolding assms(2-4)
    using get_results_completed [OF _ _ _ _ assms(1), of job_id job json_loads output_format]
    by blast
  have js: "json_files \<noteq> [] \<Longrightarrow>
      \<exists>text. map_of (nodes (disk st)) (os_path_join result_path (hd json_files)) = Some (File text)"
    unfolding assms(4) using assms(1) by (rule first_json_is_file)
  show "if result_files = [] then
          get_results json_loads st job_id output_format = Inl (HTTPException 404 ''No results found'')
        else if output_format = ''csv'' \<and> csv_files \<noteq> [] then
          get_results json_loads st job_id output_format
            = Inr (FileResponse (os_path_join result_path (hd csv_files)) (Some ''text/csv'')
                     (''result_'' @ job_id @ ''.csv''))
        else if output_format = ''excel'' \<and> excel_files \<noteq> [] then
          get_results json_loads st job_id output_format
            = Inr (FileResponse (os_path_join result_path (hd excel_files))
                     (Some ''application/vnd.openxmlformats-officedocument.spreadsheetml.sheet'')
                     (''result_'' @ job_id @ ''.xlsx''))
        else if json_files \<noteq> [] then
          (\<exists>text. map_of (nodes (disk st)) (os_path_join result_path (hd json_files)) = Some (File text) \<and>
                  (\<forall>v. json_loads text = Inr v \<longrightarrow>
                       get_results json_loads st job_id output_format = Inr (JSONContent v)))
        else
          get_results json_loads st job_id output_format
            = Inr (FileResponse (os_path_join result_path (hd result_files)) None
                     (''result_'' @ job_id @ ''_'' @ hd result_files))"
  proof (cases "json_files = []")
    case True
    then show ?thesis unfolding eq by simp
  next
    case False
    from js [OF False] obtain content where
      t: "map_of (nodes (disk st)) (os_path_join result_path (hd json_files)) = Some (File content)" ..
    with False show ?thesis unfolding eq by simp
  qed
qed

theorem get_results_selection_witness:
  "map_of (job_status example_state) ''c'' = Some (example_job ''c'' ''completed'' ''2024-01-09T00:00:00'') \<and>
   map_of (example_job ''c'' ''completed'' ''2024-01-09T00:00:00'') ''status'' = Some ''completed'' \<and>
   map_of (example_job ''c'' ''completed'' ''2024-01-09T00:00:00'') ''result_path''
     = Some ''/tmp/file_processor/results/c'' \<and>
   os_listdir (disk example_state) ''/tmp/file_processor/results/c'' = Inr [''out.json''] \<and>
   filter (\<lambda>f. os_path_isfile (disk example_state) (os_path_join ''/tmp/file_processor/results/c'' f))
       [''out.json''] = [''out.json''] \<and>
   filter (\<lambda>f. suffix ''.csv'' f) [''out.json''] = [] \<and>
   filter (\<lambda>f. suffix ''.json'' f) [''out.json''] = [''out.json''] \<and>
   get_results (\<lambda>t. Inr t) example_state ''c'' ''csv'' = Inr (JSONContent ''{}'') \<and>
   map_of (job_status example_state) ''z'' = None \<and>
   get_results (\<lambda>t. Inr t) example_state ''z'' ''csv'' = Inl (HTTPException 404 ''Job not found'')"
proof -
  have job: "map_of (job_status example_state) ''c''
      = Some (example_job ''c'' ''completed'' ''2024-01-09T00:00:00'')"
    by code_simp
  have status: "map_of (example_job ''c'' ''completed'' ''2024-01-09T00:00:00'') ''status'' = Some ''completed''"
    by code_simp
  have path: "map_of (example_job ''c'' ''completed'' ''2024-01-09T00:00:00'') ''result_path''
     = Some ''/tmp/file_processor/results/c''"
    by code_simp
  have listing: "os_listdir (disk example_state) ''/tmp/file_processor/results/c'' = Inr [''out.json'']"
    by code_simp
  have files: "[''out.json''] =
      filter (\<lambda>f. os_path_isfile (disk example_state) (os_path_join ''/tmp/file_processor/results/c'' f))
        [''out.json'']"
    by code_simp
  have csv: "[] = filter (\<lambda>f. suffix ''.csv'' f) [''out.json'']"
    by code_simp
  have excel: "[] = filter (\<lambda>f. suffix ''.xlsx'' f \<or> suffix ''.xls'' f) [''out.json'']"
    by code_simp
  have json: "[''out.json''] = filter (\<lambda>f. suffix ''.json'' f) [''out.json'']"
    by code_simp
  have node: "map_of (nodes (disk example_state)) (os_path_join ''/tmp/file_processor/results/c'' ''out.json'')
      = Some (File ''{}'')"
    by code_simp
  have unknown: "map_of (job_status example_state) ''z'' = None"
    by code_simp
  note sel = get_results_selection [OF files csv excel json, where json_loads = "\<lambda>t. Inr t"
               and output_format = "''csv''"]
  from sel [of "''c''"] job status path listing
  have "\<exists>content. map_of (nodes (disk example_state))
                       (os_path_join ''/tmp/file_processor/results/c'' (hd [''out.json'']))
                     = Some (File content) \<and>
                  get_results (\<lambda>t. Inr t) example_state ''c'' ''csv'' = Inr (JSONContent content)"
    by simp
  with node have c: "get_results (\<lambda>t. Inr t) example_state ''c'' ''csv'' = Inr (JSONContent ''{}'')"
    by simp
  from sel [of "''z''"] unknown
  have z: "get_results (\<lambda>t. Inr t) example_state ''z'' ''csv'' = Inl (HTTPException 404 ''Job not found'')"
    by blast
  from job status path listing files [symmetric] csv [symmetric] json [symmetric] c unknown z
  show ?thesis by blast
qed

text \<open>
  The claim as stated fails for two completed jobs. The result directory of \<open>e\<close> holds no
  file: the reply is 404, not a file. The result directory of \<open>u\<close> holds \<open>bad.json\<close>, which
  is not JSON, and \<open>notes.txt\<close>: for the formats \<open>json\<close> and \<open>csv\<close> alike the parser's
  exception leaves the handler, and no file is returned.
\<close>

theorem get_results_without_file:
  "job_field (job_status example_results_state) ''e'' ''status'' = Some ''completed'' \<and>
   os_listdir (disk example_results_state) ''/tmp/file_processor/results/e'' = Inr [] \<and>
   get_results example_json_loads example_results_state ''e'' ''json''
     = Inl (HTTPException 404 ''No results found'') \<and>
   job_field (job_status example_results_state) ''u'' ''status'' = Some ''completed'' \<and>
   os_listdir (disk example_results_state) ''/tmp/file_processor/results/u''
     = Inr [''bad.json'', ''notes.txt''] \<and>
   get_results example_json_loads example_results_state ''u'' ''json''
     = Inl (JSONDecodeError ''Expecting value: line 1 column 1 (char 0)'') \<and>
   get_results example_json_loads example_results_state ''u'' ''csv''
     = Inl (JSONDecodeError ''Expecting value: line 1 column 1 (char 0)'')"
  by code_simp

end
